theory Spec2Isabelle
  imports Complex_Main
begin

section \<open>Python values, text and the data frame\<close>

text \<open>
  The module \<open>graph_utils.py\<close> decorates a Matplotlib axes from a pandas data frame.
  Values that flow through it dynamically (data-frame cells, keyword options, the arguments
  of the drawing calls) are one datatype. Floating-point coordinates are idealised as
  \<^typ>\<open>real\<close>. Text is taken over the code points below 256, one \<^typ>\<open>char\<close> each.
\<close>

datatype error = KeyError | ValueError | IndexError | AttributeError

datatype pyval = Str string | IntV int | NoneV | NaN

text \<open>\<open>str.lower()\<close> on the code points below 256.\<close>

definition lower_char :: "char \<Rightarrow> char" where
  "lower_char c =
     (let n = (of_char c :: nat)
      in if (65 \<le> n \<and> n \<le> 90) \<or> (192 \<le> n \<and> n \<le> 222 \<and> n \<noteq> 215)
         then char_of (n + 32) else c)"

definition lower :: "string \<Rightarrow> string" where
  "lower s = map lower_char s"

text \<open>\<open>str.strip()\<close>: the white space of Python below code point 256.\<close>

definition isspace :: "char \<Rightarrow> bool" where
  "isspace c =
     (let n = (of_char c :: nat)
      in (9 \<le> n \<and> n \<le> 13) \<or> (28 \<le> n \<and> n \<le> 32) \<or> n = 133 \<or> n = 160)"

definition strip :: "string \<Rightarrow> string" where
  "strip s = rev (dropWhile isspace (rev (dropWhile isspace s)))"

text \<open>\<open>v.lower()\<close> on a dynamic value: only a string has the method.\<close>

fun py_lower :: "pyval \<Rightarrow> error + string" where
  "py_lower (Str s) = Inr (lower s)"
| "py_lower v = Inl AttributeError"

text \<open>\<open>pd.isna(v)\<close> on a scalar.\<close>

fun isna :: "pyval \<Rightarrow> bool" where
  "isna NoneV = True"
| "isna NaN = True"
| "isna v = False"

text \<open>Decimal digits of an integer, for \<open>str(v)\<close>.\<close>

fun digits :: "nat \<Rightarrow> string" where
  "digits n =
     (if n < 10 then [char_of (48 + n)]
      else digits (n div 10) @ [char_of (48 + n mod 10)])"

declare digits.simps [simp del]

definition str_int :: "int \<Rightarrow> string" where
  "str_int i = (if i < 0 then CHR ''-'' # digits (nat (- i)) else digits (nat i))"

text \<open>
  The text a Matplotlib \<open>Text\<close> holds for a value (\<open>Text.set_text\<close>: the empty string for
  \<open>None\<close>, \<open>str(v)\<close> otherwise).
\<close>

fun text_of :: "pyval \<Rightarrow> string" where
  "text_of (Str s) = s"
| "text_of (IntV i) = str_int i"
| "text_of NoneV = []"
| "text_of NaN = ''nan''"

text \<open>\<open>**kwargs\<close> and \<open>kwargs.get(key, default)\<close>.\<close>

type_synonym kwargs = "string \<rightharpoonup> pyval"

definition kw_get :: "kwargs \<Rightarrow> string \<Rightarrow> pyval \<Rightarrow> pyval" where
  "kw_get kw k d = (case kw k of None \<Rightarrow> d | Some v \<Rightarrow> v)"

text \<open>
  A data frame: its column names and its rows in order, each row with its index label
  (what \<open>iterrows()\<close> yields). A row is read through the frame's columns; a name that is
  not a column raises \<open>KeyError\<close>.
\<close>

record dataframe =
  columns :: "string list"
  rows :: "(int \<times> (string \<Rightarrow> pyval)) list"

definition row_get :: "string list \<Rightarrow> (string \<Rightarrow> pyval) \<Rightarrow> string \<Rightarrow> error + pyval" where
  "row_get cols r c = (if c \<in> set cols then Inr (r c) else Inl KeyError)"

definition df_col :: "dataframe \<Rightarrow> string \<Rightarrow> error + pyval list" where
  "df_col df c = (if c \<in> set (columns df) then Inr (map (\<lambda>(ix, r). r c) (rows df))
                  else Inl KeyError)"

text \<open>\<open>Series.unique()\<close>: the distinct values in order of first appearance.\<close>

definition unique :: "pyval list \<Rightarrow> pyval list" where
  "unique vs = rev (remdups (rev vs))"

text \<open>A row of a test table from its cells; a cell left out is missing (\<open>NaN\<close>).\<close>

definition mkrow :: "(string \<times> pyval) list \<Rightarrow> string \<Rightarrow> pyval" where
  "mkrow kvs c = (case map_of kvs c of None \<Rightarrow> NaN | Some v \<Rightarrow> v)"

section \<open>The rendering surface\<close>

text \<open>
  The state of the axes that the module reads and writes: the axis limits, the \<open>Text\<close>
  objects of the y tick labels, the tick padding of the y axis, the texts placed with
  \<open>ax.text\<close>, the bands placed with \<open>ax.axhspan\<close> and the y-axis label. A keyword
  argument that a call does not pass is \<open>None\<close> in the recorded artist.

  \<open>yticklabels\<close> is what \<open>ax.get_yticklabels()\<close> returns: the labels of the ticks at the
  current tick locations. Matplotlib's list \<open>yax.majorTicks\<close> holds these ticks first and
  after them the ticks it has created for earlier draws and never removes
  (\<open>spare_ticks\<close>); Matplotlib creates the list with one tick, so on a real axis it is
  never empty. \<open>fixed_locator\<close> says whether the tick locations are fixed (a
  \<open>FixedLocator\<close>, as after a bar plot or \<open>set_yticks\<close>).
\<close>

record ticklabel =
  l_text :: string
  l_ha :: "string option"
  l_family :: "pyval option"
  l_weight :: "pyval option"
  l_size :: "pyval option"

datatype coord = CVal pyval | CFlt real

record artist =
  t_x :: real
  t_y :: coord
  t_s :: pyval
  t_ha :: "string option"
  t_va :: "string option"
  t_family :: "string option"
  t_weight :: "pyval option"
  t_size :: "pyval option"

record span =
  sp_ymin :: real
  sp_ymax :: real
  sp_color :: pyval
  sp_alpha :: real
  sp_zorder :: int

record ylabel =
  yl_text :: string
  yl_loc :: "pyval option"
  yl_labelpad :: "real option"
  yl_rotation :: "pyval option"
  yl_size :: "pyval option"
  yl_weight :: "pyval option"

record axes =
  xlim :: "real \<times> real"
  ylim :: "real \<times> real"
  yticklabels :: "ticklabel list"
  ytick_pad :: real
  texts :: "artist list"
  spans :: "span list"
  ylabel :: ylabel
  spare_ticks :: "ticklabel list"
  fixed_locator :: bool

definition majorTicks :: "axes \<Rightarrow> ticklabel list" where
  "majorTicks ax = yticklabels ax @ spare_ticks ax"

text \<open>\<open>ax.text(...)\<close> adds a text; \<open>ax.axhspan(...)\<close> adds a horizontal band.\<close>

definition ax_text :: "artist \<Rightarrow> axes \<Rightarrow> axes" where
  "ax_text t ax = ax\<lparr>texts := texts ax @ [t]\<rparr>"

definition axhspan :: "real \<Rightarrow> real \<Rightarrow> pyval \<Rightarrow> real \<Rightarrow> int \<Rightarrow> axes \<Rightarrow> axes" where
  "axhspan lo hi c a z ax =
     ax\<lparr>spans := spans ax @
        [\<lparr>sp_ymin = lo, sp_ymax = hi, sp_color = c, sp_alpha = a, sp_zorder = z\<rparr>]\<rparr>"

text \<open>
  \<open>ax.set_yticklabels(labels, fontfamily=f, ha=h)\<close>, Matplotlib's \<open>Axis.set_ticklabels\<close>.
  The axis keeps its ticks. With fixed tick locations, a non-empty list of labels whose
  length is not the number of locations raises \<open>ValueError\<close>. Otherwise the label of
  every tick at a current location takes the text that the new formatter gives for its
  position and the two properties: the text is the label at that position and the empty
  text where the list has none, so the empty list blanks every label. The ticks that the
  axis holds beyond the current locations are not touched.
\<close>

definition tick_text :: "pyval list \<Rightarrow> nat \<Rightarrow> string" where
  "tick_text labels pos = (if pos < length labels then text_of (labels ! pos) else [])"

fun relabel :: "pyval list \<Rightarrow> pyval \<Rightarrow> string \<Rightarrow> nat \<Rightarrow> ticklabel list \<Rightarrow> ticklabel list" where
  "relabel labels f h pos [] = []"
| "relabel labels f h pos (tick # ticks) =
     tick\<lparr>l_text := tick_text labels pos, l_ha := Some h, l_family := Some f\<rparr>
       # relabel labels f h (pos + 1) ticks"

definition set_yticklabels :: "pyval list \<Rightarrow> pyval \<Rightarrow> string \<Rightarrow> axes \<Rightarrow> error + axes" where
  "set_yticklabels labels f h ax =
     (if labels \<noteq> [] \<and> fixed_locator ax \<and> length (yticklabels ax) \<noteq> length labels
      then Inl ValueError
      else Inr (ax\<lparr>yticklabels := relabel labels f h 0 (yticklabels ax)\<rparr>))"

text \<open>
  \<open>label.get_window_extent(renderer).width\<close>: Matplotlib gives a label without text a
  box of width 0; the width of any other label is the renderer's, the parameter
  \<open>extent\<close>.
\<close>

definition label_width :: "(ticklabel \<Rightarrow> real) \<Rightarrow> ticklabel \<Rightarrow> real" where
  "label_width extent t = (if l_text t = [] then 0 else extent t)"



text \<open>Python's \<open>max\<close> over a sequence of floats: \<open>ValueError\<close> on the empty sequence.\<close>

fun py_max :: "real list \<Rightarrow> error + real" where
  "py_max [] = Inl ValueError"
| "py_max (x # xs) = Inr (foldl (\<lambda>m v. if v > m then v else m) x xs)"

text \<open>Python's \<open>xs[i]\<close>: the position an index denotes, \<open>IndexError\<close> out of range.\<close>

definition py_index :: "'a list \<Rightarrow> int \<Rightarrow> error + nat" where
  "py_index xs i =
     (let n = int (length xs); j = (if i < 0 then n + i else i)
      in if 0 \<le> j \<and> j < n then Inr (nat j) else Inl IndexError)"

section \<open>The functions of \<open>graph_utils.py\<close>\<close>

subsection \<open>\<open>right_flush_yticklabels\<close>\<close>

text \<open>
  The axes is taken in the state that the forced draw \<open>plt.draw()\<close> leaves it in, and
  the renderer is the parameter \<open>extent\<close>. The maximum runs over \<open>yax.majorTicks\<close>. The
  function returns the pad together with the axes it changed.
\<close>

definition right_flush_yticklabels ::
  "(ticklabel \<Rightarrow> real) \<Rightarrow> dataframe \<Rightarrow> string \<Rightarrow> bool \<Rightarrow> axes \<Rightarrow> kwargs
   \<Rightarrow> error + (real \<times> axes)" where
  "right_flush_yticklabels extent df yticklabel flush ax kw =
     (let fontfamily = kw_get kw ''fontfamily'' (Str ''monospace'')
      in case df_col df yticklabel of
           Inl e \<Rightarrow> Inl e
         | Inr labels \<Rightarrow>
             (case (if flush then set_yticklabels labels fontfamily ''left'' ax
                    else set_yticklabels labels fontfamily ''right'' ax) of
                Inl e \<Rightarrow> Inl e
              | Inr ax1 \<Rightarrow>
                  (case py_max (map (label_width extent) (majorTicks ax1)) of
                     Inl e \<Rightarrow> Inl e
                   | Inr pad \<Rightarrow>
                       Inr (pad, if flush then ax1\<lparr>ytick_pad := pad\<rparr> else ax1))))"

subsection \<open>\<open>draw_pval_right\<close>\<close>

text \<open>The loop over \<open>dataframe.iterrows()\<close>; it assigns the local \<open>pad\<close> in every round.\<close>

fun pval_loop ::
  "string list \<Rightarrow> string \<Rightarrow> (int \<times> (string \<Rightarrow> pyval)) list \<Rightarrow> real \<Rightarrow> axes
   \<Rightarrow> error + (real \<times> axes)" where
  "pval_loop cols yticklabel [] pad ax = Inr (pad, ax)"
| "pval_loop cols yticklabel ((ix, row) # rs) pad ax =
     (case row_get cols row yticklabel of
        Inl e \<Rightarrow> Inl e
      | Inr yticklabel1 \<Rightarrow>
          (case row_get cols row ''formatted_pval'' of
             Inl e \<Rightarrow> Inl e
           | Inr v \<Rightarrow>
               (let yticklabel2 = (if isna v then Str [] else v);
                    extrapad = 0.05;
                    pad' = snd (xlim ax) * (1 + extrapad)
                in pval_loop cols yticklabel rs pad'
                     (ax_text \<lparr>t_x = pad', t_y = CVal yticklabel1, t_s = yticklabel2,
                               t_ha = Some ''left'', t_va = Some ''center'',
                               t_family = None, t_weight = None, t_size = None\<rparr> ax))))"

definition draw_pval_right ::
  "dataframe \<Rightarrow> string option \<Rightarrow> string list option \<Rightarrow> string \<Rightarrow> real \<Rightarrow> axes \<Rightarrow> kwargs
   \<Rightarrow> error + axes" where
  "draw_pval_right df pval annoteheaders yticklabel pad ax kw =
     (if pval \<noteq> None then
        (case pval_loop (columns df) yticklabel (rows df) pad ax of
           Inl e \<Rightarrow> Inl e
         | Inr (pad1, ax1) \<Rightarrow>
             (let pval_title = kw_get kw ''pval_title'' (Str ''P-value'')
              in if pval_title \<noteq> NoneV then
                   (let ax2 =
                          (if annoteheaders = None then
                             ax_text \<lparr>t_x = pad1, t_y = CFlt (snd (ylim ax1)), t_s = pval_title,
                                       t_ha = None, t_va = None, t_family = None,
                                       t_weight = Some (Str ''bold''),
                                       t_size = Some (IntV 10)\<rparr> ax1
                           else ax1)
                    in if annoteheaders \<noteq> None then
                         (let pval_title_fontweight =
                                kw_get kw ''pval_title_fontweight'' (Str ''bold'');
                              pval_title_fontsize = kw_get kw ''pval_title_fontsize'' (IntV 10);
                              header_index = int (length (yticklabels ax2)) - 1
                          in Inr (ax_text \<lparr>t_x = pad1, t_y = CVal (IntV header_index),
                                            t_s = pval_title,
                                            t_ha = Some ''left'', t_va = Some ''center'',
                                            t_family = None,
                                            t_weight = Some pval_title_fontweight,
                                            t_size = Some pval_title_fontsize\<rparr> ax2))
                       else Inr ax2)
                 else Inr ax1))
      else Inr ax)"

subsection \<open>\<open>draw_ylabel2\<close>\<close>

fun ylabel2_loop ::
  "string list \<Rightarrow> int \<Rightarrow> pyval \<Rightarrow> pyval \<Rightarrow> (int \<times> (string \<Rightarrow> pyval)) list \<Rightarrow> axes
   \<Rightarrow> error + axes" where
  "ylabel2_loop cols group_row_ix weight sz [] ax = Inr ax"
| "ylabel2_loop cols group_row_ix weight sz ((ix, row) # rs) ax =
     (case row_get cols row ''yticklabel'' of
        Inl e \<Rightarrow> Inl e
      | Inr yticklabel1 \<Rightarrow>
          (case row_get cols row ''yticklabel2'' of
             Inl e \<Rightarrow> Inl e
           | Inr yticklabel2 \<Rightarrow>
               (let extrapad = 0.05;
                    pad = snd (xlim ax) * (1 + extrapad)
                in if ix = group_row_ix then
                     ylabel2_loop cols group_row_ix weight sz rs
                       (ax_text \<lparr>t_x = pad, t_y = CVal yticklabel1, t_s = yticklabel2,
                                 t_ha = Some ''left'', t_va = Some ''center'',
                                 t_family = Some ''monospace'',
                                 t_weight = Some weight, t_size = Some sz\<rparr> ax)
                   else
                     ylabel2_loop cols group_row_ix weight sz rs
                       (ax_text \<lparr>t_x = pad, t_y = CVal yticklabel1, t_s = yticklabel2,
                                 t_ha = Some ''left'', t_va = Some ''center'',
                                 t_family = Some ''monospace'',
                                 t_weight = None, t_size = None\<rparr> ax))))"

definition draw_ylabel2 :: "dataframe \<Rightarrow> axes \<Rightarrow> kwargs \<Rightarrow> error + axes" where
  "draw_ylabel2 df ax kw =
     (let grouplab_size = kw_get kw ''grouplab_size'' (IntV 10);
          grouplab_fontweight = kw_get kw ''grouplab_fontweight'' (Str ''bold'');
          group_row_ix = int (length (rows df)) - 1
      in ylabel2_loop (columns df) group_row_ix grouplab_fontweight grouplab_size (rows df) ax)"

subsection \<open>\<open>draw_ylabel1\<close>\<close>


subsection \<open>\<open>format_grouplabels\<close>\<close>

text \<open>
  The inner loop over the group values for one tick label. \<open>gr.lower()\<close> raises
  \<open>AttributeError\<close> on a value that is no string, and the handler passes.
\<close>

fun grouplabel_inner :: "pyval \<Rightarrow> pyval \<Rightarrow> pyval list \<Rightarrow> ticklabel \<Rightarrow> ticklabel" where
  "grouplabel_inner weight sz [] t = t"
| "grouplabel_inner weight sz (gr # grs) t =
     (case py_lower gr of
        Inl e \<Rightarrow> grouplabel_inner weight sz grs t
      | Inr g \<Rightarrow>
          if g = strip (lower (l_text t))
          then grouplabel_inner weight sz grs (t\<lparr>l_weight := Some weight, l_size := Some sz\<rparr>)
          else grouplabel_inner weight sz grs t)"

text \<open>The outer loop over the tick labels; each round reads the group column again.\<close>

fun grouplabel_outer ::
  "dataframe \<Rightarrow> string \<Rightarrow> pyval \<Rightarrow> pyval \<Rightarrow> ticklabel list \<Rightarrow> error + ticklabel list" where
  "grouplabel_outer df groupvar weight sz [] = Inr []"
| "grouplabel_outer df groupvar weight sz (t # ts) =
     (case df_col df groupvar of
        Inl e \<Rightarrow> Inl e
      | Inr col \<Rightarrow>
          (case grouplabel_outer df groupvar weight sz ts of
             Inl e \<Rightarrow> Inl e
           | Inr ts' \<Rightarrow> Inr (grouplabel_inner weight sz (unique col) t # ts')))"

definition format_grouplabels ::
  "dataframe \<Rightarrow> string option \<Rightarrow> axes \<Rightarrow> kwargs \<Rightarrow> error + axes" where
  "format_grouplabels df groupvar ax kw =
     (let grouplab_size = kw_get kw ''grouplab_size'' (IntV 10);
          grouplab_fontweight = kw_get kw ''grouplab_fontweight'' (Str ''bold'')
      in case groupvar of
           None \<Rightarrow> Inr ax
         | Some gv \<Rightarrow>
             (case grouplabel_outer df gv grouplab_fontweight grouplab_size (yticklabels ax) of
                Inl e \<Rightarrow> Inl e
              | Inr ts \<Rightarrow> Inr (ax\<lparr>yticklabels := ts\<rparr>)))"

subsection \<open>\<open>format_tableheader\<close>\<close>

definition format_tableheader ::
  "string list option \<Rightarrow> string list option \<Rightarrow> axes \<Rightarrow> kwargs \<Rightarrow> error + axes" where
  "format_tableheader annoteheaders right_annoteheaders ax kw =
     (if annoteheaders \<noteq> None \<or> right_annoteheaders \<noteq> None then
        (let tableheader_fontweight = kw_get kw ''tableheader_fontweight'' (Str ''bold'');
             tableheader_fontsize = kw_get kw ''tableheader_fontsize'' (IntV 10);
             nlast = int (length (yticklabels ax))
         in case py_index (yticklabels ax) (nlast - 1) of
              Inl e \<Rightarrow> Inl e
            | Inr j \<Rightarrow>
                Inr (ax\<lparr>yticklabels :=
                          (yticklabels ax)
                            [j := (yticklabels ax ! j)
                                    \<lparr>l_weight := Some tableheader_fontweight,
                                     l_size := Some tableheader_fontsize\<rparr>]\<rparr>))
      else Inr ax)"

subsection \<open>\<open>draw_alt_row_colors\<close>\<close>

text \<open>
  The list comprehension that builds \<open>groups\<close> keeps only the strings; without a group
  column the list is empty.
\<close>

fun group_names :: "pyval list \<Rightarrow> string list" where
  "group_names [] = []"
| "group_names (Str grp_str # vs) = lower (strip grp_str) # group_names vs"
| "group_names (v # vs) = group_names vs"

text \<open>
  The loop over \<open>enumerate(yticklabels)\<close>, with the tick index \<open>ix\<close> and the counter as
  loop state; \<open>n\<close> is \<open>len(yticklabels)\<close>. The \<open>break\<close> ends the loop.
\<close>

fun alt_loop ::
  "bool \<Rightarrow> nat \<Rightarrow> string list \<Rightarrow> pyval \<Rightarrow> nat \<Rightarrow> nat \<Rightarrow> ticklabel list \<Rightarrow> axes \<Rightarrow> axes" where
  "alt_loop headers_exist n groups row_color ix counter [] ax = ax"
| "alt_loop headers_exist n groups row_color ix counter (ticklab # ts) ax =
     (if headers_exist \<and> int ix = int n - 1 then ax
      else
        (let labtext = l_text ticklab
         in if strip (lower labtext) \<in> set groups
            then alt_loop headers_exist n groups row_color (ix + 1) 2 ts ax
            else alt_loop headers_exist n groups row_color (ix + 1) (counter + 1) ts
                   (if counter mod 2 = 0
                    then axhspan (real ix - 0.5) (real ix + 0.5) row_color 0.08 0 ax
                    else ax)))"

definition groups_of :: "dataframe \<Rightarrow> string option \<Rightarrow> error + string list" where
  "groups_of df groupvar =
     (case groupvar of
        Some gv \<Rightarrow>
          (case df_col df gv of
             Inl e \<Rightarrow> Inl e
           | Inr col \<Rightarrow> Inr (group_names (unique col)))
      | None \<Rightarrow> Inr [])"

definition draw_alt_row_colors ::
  "dataframe \<Rightarrow> string option \<Rightarrow> string list option \<Rightarrow> string list option \<Rightarrow> axes \<Rightarrow> kwargs
   \<Rightarrow> error + axes" where
  "draw_alt_row_colors df groupvar annoteheaders right_annoteheaders ax kw =
     (let row_color = kw_get kw ''row_color'' (Str ''black'');
          headers_exist = (annoteheaders \<noteq> None \<or> right_annoteheaders \<noteq> None);
          yts = yticklabels ax;
          counter = 1
      in case groups_of df groupvar of
           Inl e \<Rightarrow> Inl e
         | Inr groups \<Rightarrow>
             Inr (alt_loop headers_exist (length yts) groups row_color 0 counter yts ax))"

text \<open>
  Reading the result: tick \<open>i\<close> is shaded when a band over \<open>(i - 0.5, i + 0.5)\<close> is on the
  axes; the shading pattern lists this for the ticks \<open>0, ..., n - 1\<close>.
\<close>

definition shaded :: "axes \<Rightarrow> nat \<Rightarrow> bool" where
  "shaded ax i =
     list_ex (\<lambda>sp. sp_ymin sp = real i - 0.5 \<and> sp_ymax sp = real i + 0.5) (spans ax)"

definition shading_pattern :: "axes \<Rightarrow> nat \<Rightarrow> bool list" where
  "shading_pattern ax n = map (shaded ax) [0..<n]"

text \<open>The shading pattern of a run, an error passed on.\<close>

definition shading_of :: "error + axes \<Rightarrow> nat \<Rightarrow> error + bool list" where
  "shading_of r n = (case r of Inl e \<Rightarrow> Inl e | Inr ax \<Rightarrow> Inr (shading_pattern ax n))"

section \<open>Test inputs\<close>

text \<open>A call without keyword options.\<close>

definition no_kwargs :: kwargs where
  "no_kwargs = Map.empty"

text \<open>
  An axes after a bar plot with the given tick texts: fixed tick locations, no spare tick,
  x limits \<open>(-1, 2)\<close> and nothing else drawn yet.
\<close>

definition mk_tick :: "string \<Rightarrow> ticklabel" where
  "mk_tick s = \<lparr>l_text = s, l_ha = None, l_family = None, l_weight = None, l_size = None\<rparr>"

definition mk_axes :: "string list \<Rightarrow> axes" where
  "mk_axes ts =
     \<lparr>xlim = (- 1, 2), ylim = (- 0.5, real (length ts) - 0.5),
      yticklabels = map mk_tick ts, ytick_pad = 3.5, texts = [], spans = [],
      ylabel = \<lparr>yl_text = ''old label'', yl_loc = None, yl_labelpad = None,
                yl_rotation = None, yl_size = None, yl_weight = None\<rparr>,
      spare_ticks = [], fixed_locator = True\<rparr>"

text \<open>
  The five rows of the end-to-end example: group \<open>A\<close>, \<open>x1\<close>, \<open>x2\<close>, group \<open>B\<close>, \<open>x3\<close>,
  with one tick per row and no header row.
\<close>

definition five_df :: dataframe where
  "five_df =
     \<lparr>columns = [''group'', ''yticklabel''],
      rows = [(0, mkrow [(''group'', Str ''A''), (''yticklabel'', Str ''A'')]),
              (1, mkrow [(''group'', NoneV), (''yticklabel'', Str ''x1'')]),
              (2, mkrow [(''group'', NoneV), (''yticklabel'', Str ''x2'')]),
              (3, mkrow [(''group'', Str ''B''), (''yticklabel'', Str ''B'')]),
              (4, mkrow [(''group'', NoneV), (''yticklabel'', Str ''x3'')])]\<rparr>"

definition five_ax :: axes where
  "five_ax = mk_axes [''A'', ''x1'', ''x2'', ''B'', ''x3'']"

text \<open>
  A renderer for a monospace font: seven device units for each character of the label.
\<close>

definition mono_extent :: "ticklabel \<Rightarrow> real" where
  "mono_extent t = 7 * real (length (l_text t))"

text \<open>A table without rows, and a table of two rows, the second without a p-value.\<close>

definition no_rows_df :: dataframe where
  "no_rows_df = \<lparr>columns = [''yticklabel'', ''formatted_pval''], rows = []\<rparr>"

definition two_df :: dataframe where
  "two_df =
     \<lparr>columns = [''yticklabel'', ''formatted_pval''],
      rows = [(0, mkrow [(''yticklabel'', Str ''age''), (''formatted_pval'', Str ''0.04'')]),
              (1, mkrow [(''yticklabel'', Str ''body mass index''),
                         (''formatted_pval'', NaN)])]\<rparr>"

text \<open>The axes for the two rows of \<open>two_df\<close>.\<close>

definition pval_ax :: axes where
  "pval_ax = mk_axes [''age'', ''body mass index'']"

text \<open>The texts on the axes of a run as they are displayed, an error passed on.\<close>

definition drawn_text :: "error + axes \<Rightarrow> error + string list" where
  "drawn_text r =
     (case r of Inl e \<Rightarrow> Inl e | Inr ax \<Rightarrow> Inr (map (\<lambda>t. text_of (t_s t)) (texts ax)))"

text \<open>The weights of the tick labels of a run, an error passed on.\<close>

definition tick_weights :: "error + axes \<Rightarrow> error + pyval option list" where
  "tick_weights r =
     (case r of Inl e \<Rightarrow> Inl e | Inr ax \<Rightarrow> Inr (map l_weight (yticklabels ax)))"

text \<open>
  Three rows for the second label column; the middle row has no second label, the last
  row carries the column header.
\<close>

definition ylabel2_df :: dataframe where
  "ylabel2_df =
     \<lparr>columns = [''yticklabel'', ''yticklabel2''],
      rows = [(0, mkrow [(''yticklabel'', Str ''x1''), (''yticklabel2'', Str ''12'')]),
              (1, mkrow [(''yticklabel'', Str ''x2''), (''yticklabel2'', NaN)]),
              (2, mkrow [(''yticklabel'', Str ''Variable''), (''yticklabel2'', Str ''N'')])]\<rparr>"

definition ylabel2_ax :: axes where
  "ylabel2_ax = mk_axes [''x1'', ''x2'', ''Variable'']"

text \<open>
  A group whose name starts with a blank: the row \<open>x0\<close>, the group row and the row \<open>x1\<close>.
\<close>

definition blank_df :: dataframe where
  "blank_df =
     \<lparr>columns = [''group'', ''yticklabel''],
      rows = [(0, mkrow [(''group'', NaN), (''yticklabel'', Str ''x0'')]),
              (1, mkrow [(''group'', Str '' A''), (''yticklabel'', Str '' A'')]),
              (2, mkrow [(''group'', NaN), (''yticklabel'', Str ''x1'')])]\<rparr>"

definition blank_ax :: axes where
  "blank_ax = mk_axes [''x0'', '' A'', ''x1'']"

text \<open>
  An axes whose last tick carries the text of group \<open>B\<close> of \<open>five_df\<close>, and keyword
  options that give group labels and the table header different sizes.
\<close>

definition header_ax :: axes where
  "header_ax = mk_axes [''x1'', ''x2'', ''B'']"

definition header_kw :: kwargs where
  "header_kw = [''grouplab_size'' \<mapsto> IntV 12, ''tableheader_fontsize'' \<mapsto> IntV 14]"

text \<open>The pad of a run of \<open>right_flush_yticklabels\<close>, an error passed on.\<close>

definition pad_of :: "error + (real \<times> axes) \<Rightarrow> error + real" where
  "pad_of r = (case r of Inl e \<Rightarrow> Inl e | Inr (pad, ax) \<Rightarrow> Inr pad)"

text \<open>The largest width among the labels that \<open>ax.get_yticklabels()\<close> returns after a run.\<close>

definition widest_label :: "(ticklabel \<Rightarrow> real) \<Rightarrow> error + (real \<times> axes) \<Rightarrow> error + real" where
  "widest_label extent r =
     (case r of Inl e \<Rightarrow> Inl e
      | Inr (pad, ax) \<Rightarrow> py_max (map (label_width extent) (yticklabels ax)))"


text \<open>
  Two rows with short labels, and the axes after their bar plot on \<open>fresh_ax\<close>: two fixed
  tick locations, and behind them the four ticks left over from the first draw, still
  with their number labels.
\<close>

definition short_df :: dataframe where
  "short_df =
     \<lparr>columns = [''yticklabel''],
      rows = [(0, mkrow [(''yticklabel'', Str ''a'')]),
              (1, mkrow [(''yticklabel'', Str ''bb'')])]\<rparr>"

definition stale_ax :: axes where
  "stale_ax =
     (mk_axes [''a'', ''bb''])
       \<lparr>spare_ticks := map mk_tick [''0.4'', ''0.6'', ''0.8'', ''1.0'']\<rparr>"

text \<open>The weights of the texts on the axes of a run, an error passed on.\<close>

definition text_weights :: "error + axes \<Rightarrow> error + pyval option list" where
  "text_weights r =
     (case r of Inl e \<Rightarrow> Inl e | Inr ax \<Rightarrow> Inr (map t_weight (texts ax)))"

text \<open>Keyword options that ask for a header in normal weight and a title in light weight.\<close>

definition normal_kw :: kwargs where
  "normal_kw = [''tableheader_fontweight'' \<mapsto> Str ''normal'']"

definition light_kw :: kwargs where
  "light_kw = [''pval_title_fontweight'' \<mapsto> Str ''light'']"

text \<open>An axes of one row and the header tick above it.\<close>

definition top_ax :: axes where
  "top_ax = mk_axes [''x1'', ''Variable'']"

section \<open>Zebra striping: the loop of \<open>draw_alt_row_colors\<close>\<close>

lemma spans_axhspan:
  "spans (axhspan lo hi c a z ax) =
     spans ax @ [\<lparr>sp_ymin = lo, sp_ymax = hi, sp_color = c, sp_alpha = a, sp_zorder = z\<rparr>]"
  by (simp add: axhspan_def)

text \<open>The loop only adds bands.\<close>

lemma alt_loop_spans_prefix:
  "\<exists>new. spans (alt_loop he n gs c ix k ts ax) = spans ax @ new"
proof (induction ts arbitrary: ix k ax)
  case Nil
  show ?case by simp
next
  case (Cons t ts)
  obtain new1 where n1: "spans (alt_loop he n gs c (ix + 1) 2 ts ax) = spans ax @ new1"
    using Cons.IH by blast
  obtain new2 where n2: "spans (alt_loop he n gs c (ix + 1) (k + 1) ts ax) = spans ax @ new2"
    using Cons.IH by blast
  obtain new3 where n3: "spans (alt_loop he n gs c (ix + 1) (k + 1) ts
        (axhspan (real ix - 0.5) (real ix + 0.5) c 0.08 0 ax)) =
      spans (axhspan (real ix - 0.5) (real ix + 0.5) c 0.08 0 ax) @ new3"
    using Cons.IH by blast
  show ?case
    using n1 n2 n3 by (simp add: Let_def spans_axhspan)
qed

lemma shaded_mono:
  assumes "shaded ax j"
  shows "shaded (alt_loop he n gs c ix k ts ax) j"
proof -
  obtain new where "spans (alt_loop he n gs c ix k ts ax) = spans ax @ new"
    using alt_loop_spans_prefix by blast
  with assms show ?thesis by (auto simp add: shaded_def list_ex_iff)
qed

lemma shaded_axhspan: "shaded (axhspan (real i - 0.5) (real i + 0.5) c a z ax) i"
  by (simp add: shaded_def axhspan_def)

text \<open>
  A group tick sets the counter to 2, so the next tick, when it is no group tick and the
  loop has not stopped at it, gets a band.
\<close>

lemma alt_loop_after_group:
  assumes "Suc j < length ts"
    and "strip (lower (l_text (ts ! j))) \<in> set gs"
    and "strip (lower (l_text (ts ! Suc j))) \<notin> set gs"
    and "ix + length ts = n"
    and "\<not> (he \<and> Suc (ix + j) = n - 1)"
  shows "shaded (alt_loop he n gs c ix k ts ax) (Suc (ix + j))"
  using assms
proof (induction ts arbitrary: ix k ax j)
  case Nil
  then show ?case by simp
next
  case (Cons t ts)
  from Cons.prems(1) obtain t1 ts1 where ts: "ts = t1 # ts1"
    by (cases ts) auto
  have nobreak: "\<not> (he \<and> int ix = int n - 1)"
    using Cons.prems(4) ts by auto
  show ?case
  proof (cases j)
    case 0
    have g: "strip (lower (l_text t)) \<in> set gs" using Cons.prems(2) 0 by simp
    have ng: "strip (lower (l_text t1)) \<notin> set gs" using Cons.prems(3) 0 ts by simp
    have nb1: "\<not> (he \<and> int (ix + 1) = int n - 1)"
      using Cons.prems(5) 0 by auto
    have "shaded (alt_loop he n gs c (ix + 1 + 1) (2 + 1) ts1
            (axhspan (real (ix + 1) - 0.5) (real (ix + 1) + 0.5) c 0.08 0 ax)) (ix + 1)"
      by (rule shaded_mono) (rule shaded_axhspan)
    then show ?thesis
      using g ng nobreak nb1 0 ts by (auto simp add: Let_def)
  next
    case (Suc j')
    have p1: "Suc j' < length ts" using Cons.prems(1) Suc by simp
    have p2: "strip (lower (l_text (ts ! j'))) \<in> set gs" using Cons.prems(2) Suc by simp
    have p3: "strip (lower (l_text (ts ! Suc j'))) \<notin> set gs" using Cons.prems(3) Suc by simp
    have p4: "(ix + 1) + length ts = n" using Cons.prems(4) by simp
    have p5: "\<not> (he \<and> Suc ((ix + 1) + j') = n - 1)" using Cons.prems(5) Suc by simp
    have ih: "\<And>k ax. shaded (alt_loop he n gs c (ix + 1) k ts ax) (Suc ((ix + 1) + j'))"
      using Cons.IH[OF p1 p2 p3 p4 p5] .
    show ?thesis
      using nobreak ih Suc by (auto simp add: Let_def)
  qed
qed

text \<open>
  C1. The claim: the tick right after a group tick is always unshaded, and the five ticks
  group A, x1, x2, group B, x3 without a header row come out as unshaded, unshaded, shaded,
  unshaded, unshaded. On the code the five ticks come out as unshaded, shaded, unshaded,
  unshaded, shaded: the group tick resets the counter to 2, the even value, so the row
  after it is the one that gets the band (the docstring: breaks from groups restart with
  gray).
\<close>

theorem C1_five_ticks_counterexample:
  "shading_of (draw_alt_row_colors five_df (Some ''group'') None None five_ax no_kwargs) 5
     = Inr [False, True, False, False, True]
   \<and> shading_of (draw_alt_row_colors five_df (Some ''group'') None None five_ax no_kwargs) 5
     \<noteq> Inr [False, False, True, False, False]"
  by code_simp

text \<open>
  C1 as amended: for every input, a tick that is no group tick, that follows a group tick
  and that is not the header tick the loop stops at, is shaded; the five ticks of the
  example come out as unshaded, shaded, unshaded, unshaded, shaded.
\<close>

theorem C1_row_after_group_is_shaded:
  assumes "groups_of df groupvar = Inr gs"
    and "Suc i < length (yticklabels ax)"
    and "strip (lower (l_text (yticklabels ax ! i))) \<in> set gs"
    and "strip (lower (l_text (yticklabels ax ! Suc i))) \<notin> set gs"
    and "\<not> ((annoteheaders \<noteq> None \<or> right_annoteheaders \<noteq> None)
            \<and> Suc i = length (yticklabels ax) - 1)"
  shows "(\<exists>ax'. draw_alt_row_colors df groupvar annoteheaders right_annoteheaders ax kw = Inr ax'
            \<and> shaded ax' (Suc i))
         \<and> shading_of (draw_alt_row_colors five_df (Some ''group'') None None five_ax no_kwargs) 5
             = Inr [False, True, False, False, True]"
proof
  have "shaded (alt_loop (annoteheaders \<noteq> None \<or> right_annoteheaders \<noteq> None)
          (length (yticklabels ax)) gs (kw_get kw ''row_color'' (Str ''black'')) 0 1
          (yticklabels ax) ax) (Suc (0 + i))"
    using assms(2-5) by (intro alt_loop_after_group) simp_all
  then show "\<exists>ax'. draw_alt_row_colors df groupvar annoteheaders right_annoteheaders ax kw = Inr ax'
      \<and> shaded ax' (Suc i)"
    using assms(1) by (simp add: draw_alt_row_colors_def Let_def)
  show "shading_of (draw_alt_row_colors five_df (Some ''group'') None None five_ax no_kwargs) 5
      = Inr [False, True, False, False, True]"
    by code_simp
qed

theorem C1_row_after_group_is_shaded_witness:
  "groups_of five_df (Some ''group'') = Inr [''a'', ''b'']
   \<and> strip (lower (l_text (yticklabels five_ax ! 3))) \<in> set [''a'', ''b'']
   \<and> strip (lower (l_text (yticklabels five_ax ! Suc 3))) \<notin> set [''a'', ''b'']
   \<and> (\<exists>ax'. draw_alt_row_colors five_df (Some ''group'') None None five_ax no_kwargs = Inr ax'
         \<and> shaded ax' (Suc 3))"
proof -
  have h1: "groups_of five_df (Some ''group'') = Inr [''a'', ''b'']"
    by code_simp
  have h2: "Suc 3 < length (yticklabels five_ax)"
    by code_simp
  have h3: "strip (lower (l_text (yticklabels five_ax ! 3))) \<in> set [''a'', ''b'']"
    by code_simp
  have h4: "strip (lower (l_text (yticklabels five_ax ! Suc 3))) \<notin> set [''a'', ''b'']"
    by code_simp
  have h5: "\<not> (((None :: string list option) \<noteq> None \<or> (None :: string list option) \<noteq> None)
              \<and> Suc 3 = length (yticklabels five_ax) - 1)"
    by simp
  show ?thesis
    using h1 h3 h4 C1_row_after_group_is_shaded [OF h1 h2 h3 h4 h5, of no_kwargs] by simp
qed

section \<open>The left pad: \<open>right_flush_yticklabels\<close>\<close>

lemma py_max_foldl:
  "foldl (\<lambda>m v. if v > m then v else m) (x::real) xs = fold max xs x"
proof (induction xs arbitrary: x)
  case Nil
  show ?case by simp
next
  case (Cons y ys)
  have "(if y > x then y else x) = max y x" by (simp add: max_def)
  then show ?case using Cons.IH by simp
qed

lemma py_max_Max:
  assumes "xs \<noteq> []"
  shows "py_max xs = Inr (Max (set xs))"
proof (cases xs)
  case Nil
  with assms show ?thesis by simp
next
  case (Cons a list)
  have "fold max list a = Max (set (a # list))"
    by (rule Max.set_eq_fold [symmetric])
  then show ?thesis
    by (simp only: Cons py_max.simps py_max_foldl)
qed

lemma length_relabel: "length (relabel labels f h pos ticks) = length ticks"
  by (induction ticks arbitrary: pos) simp_all

lemma nth_relabel:
  "i < length ticks \<Longrightarrow>
     relabel labels f h pos ticks ! i =
       (ticks ! i)\<lparr>l_text := tick_text labels (pos + i), l_ha := Some h, l_family := Some f\<rparr>"
proof (induction ticks arbitrary: pos i)
  case Nil
  then show ?case by simp
next
  case (Cons t ticks)
  show ?case
  proof (cases i)
    case 0
    then show ?thesis by simp
  next
    case (Suc j)
    then have "j < length ticks" using Cons.prems by simp
    from Cons.IH[OF this, of "pos + 1"] show ?thesis using Suc by simp
  qed
qed


lemma relabel_ha:
  "t \<in> set (relabel labels f h pos ticks) \<Longrightarrow> l_ha t = Some h"
  by (induction ticks arbitrary: pos) auto

text \<open>What a run does when \<open>set_yticklabels\<close> and \<open>max\<close> raise nothing.\<close>

lemma right_flush_run:
  assumes col: "df_col df yticklabel = Inr labels"
    and cnt: "labels = [] \<or> \<not> fixed_locator ax \<or> length (yticklabels ax) = length labels"
    and ne: "majorTicks ax \<noteq> []"
  shows "\<exists>pad ax'. right_flush_yticklabels extent df yticklabel flush ax kw = Inr (pad, ax')
           \<and> pad = Max (label_width extent ` set (majorTicks ax'))
           \<and> yticklabels ax' =
               relabel labels (kw_get kw ''fontfamily'' (Str ''monospace''))
                 (if flush then ''left'' else ''right'') 0 (yticklabels ax)
           \<and> spare_ticks ax' = spare_ticks ax
           \<and> ytick_pad ax' = (if flush then pad else ytick_pad ax)"
proof -
  define h where "h = (if flush then ''left'' else ''right'')"
  define f where "f = kw_get kw ''fontfamily'' (Str ''monospace'')"
  define ax1 where "ax1 = ax\<lparr>yticklabels := relabel labels f h 0 (yticklabels ax)\<rparr>"
  have s: "set_yticklabels labels f h ax = Inr ax1"
    using cnt by (auto simp add: set_yticklabels_def ax1_def)
  have s': "(if flush then set_yticklabels labels f ''left'' ax
             else set_yticklabels labels f ''right'' ax) = Inr ax1"
    using s unfolding h_def by (cases flush) simp_all
  have len: "length (majorTicks ax1) = length (majorTicks ax)"
    by (simp add: majorTicks_def ax1_def length_relabel)
  have m: "majorTicks ax1 \<noteq> []"
  proof
    assume "majorTicks ax1 = []"
    then have "length (majorTicks ax) = 0" using len by simp
    then show False using ne by simp
  qed
  then have ne': "map (label_width extent) (majorTicks ax1) \<noteq> []" by simp
  define pad where "pad = Max (label_width extent ` set (majorTicks ax1))"
  have mx: "py_max (map (label_width extent) (majorTicks ax1)) = Inr pad"
    using py_max_Max[OF ne'] by (simp add: pad_def)
  define ax' where "ax' = (if flush then ax1\<lparr>ytick_pad := pad\<rparr> else ax1)"
  have run: "right_flush_yticklabels extent df yticklabel flush ax kw = Inr (pad, ax')"
    using col s' mx
    by (simp add: right_flush_yticklabels_def Let_def f_def[symmetric] ax'_def)
  have mt: "majorTicks ax' = majorTicks ax1"
    by (simp add: ax'_def majorTicks_def)
  have a: "pad = Max (label_width extent ` set (majorTicks ax'))"
    by (simp add: mt pad_def)
  have b: "yticklabels ax' = relabel labels f h 0 (yticklabels ax)"
    by (simp add: ax'_def ax1_def)
  have c: "spare_ticks ax' = spare_ticks ax"
    by (simp add: ax'_def ax1_def)
  have d: "ytick_pad ax' = (if flush then pad else ytick_pad ax)"
    by (simp add: ax'_def ax1_def)
  show ?thesis
    using run a b c d unfolding f_def h_def by blast
qed



text \<open>
  C3. The claim: with at least one label, the function returns the largest measured width
  over the primary tick labels, and flush sets the tick padding to that width. On the
  code the maximum runs over \<open>yax.majorTicks\<close>, which also holds the ticks left over from
  earlier draws. After the bar plot of two rows labelled \<open>a\<close> and \<open>bb\<close> on an axes first
  drawn with six number ticks, the widest label measures 14 and the function returns 21,
  the width of a left-over number label.
\<close>

theorem C3_stale_tick_counterexample:
  "pad_of (right_flush_yticklabels mono_extent short_df ''yticklabel'' True stale_ax no_kwargs)
     = Inr 21
   \<and> widest_label mono_extent
        (right_flush_yticklabels mono_extent short_df ''yticklabel'' True stale_ax no_kwargs)
     = Inr 14"
  by code_simp

text \<open>
  C3 as amended: with at least one label, as many labels as fixed tick locations and an
  axis that holds at least one major tick, as every Matplotlib axis does, the function
  returns the largest measured width over all major ticks that the y axis holds:
  the ticks at the current locations, whose labels now carry the row labels by position,
  and the spare ticks, which it leaves as they are. When there is a tick at a current
  location and no spare tick is wider than the widest of their labels, the pad is the
  largest width over those labels. Every label at a current location is aligned left with
  flush and right without; with flush the tick padding of the axis becomes the returned
  pad, without flush the padding stays as it was.
\<close>

theorem C3_left_pad_over_major_ticks:
  assumes "df_col df yticklabel = Inr labels" and "labels \<noteq> []"
    and "fixed_locator ax \<longrightarrow> length (yticklabels ax) = length labels"
    and "majorTicks ax \<noteq> []"
  shows "\<exists>pad ax'. right_flush_yticklabels extent df yticklabel flush ax kw = Inr (pad, ax')
           \<and> pad = Max (label_width extent ` set (majorTicks ax'))
           \<and> spare_ticks ax' = spare_ticks ax
           \<and> length (yticklabels ax') = length (yticklabels ax)
           \<and> (\<forall>i < length (yticklabels ax').
                 l_text (yticklabels ax' ! i) = tick_text labels i
                 \<and> l_ha (yticklabels ax' ! i) = Some (if flush then ''left'' else ''right''))
           \<and> (yticklabels ax \<noteq> []
                \<and> (\<forall>t \<in> set (spare_ticks ax).
                      label_width extent t \<le> Max (label_width extent ` set (yticklabels ax')))
                \<longrightarrow> pad = Max (label_width extent ` set (yticklabels ax')))
           \<and> ytick_pad ax' = (if flush then pad else ytick_pad ax)"
proof -
  have cnt: "labels = [] \<or> \<not> fixed_locator ax \<or> length (yticklabels ax) = length labels"
    using assms(3) by blast
  obtain pad ax' where run: "right_flush_yticklabels extent df yticklabel flush ax kw = Inr (pad, ax')"
    and pad: "pad = Max (label_width extent ` set (majorTicks ax'))"
    and ticks: "yticklabels ax' =
               relabel labels (kw_get kw ''fontfamily'' (Str ''monospace''))
                 (if flush then ''left'' else ''right'') 0 (yticklabels ax)"
    and spare: "spare_ticks ax' = spare_ticks ax"
    and tp: "ytick_pad ax' = (if flush then pad else ytick_pad ax)"
    using right_flush_run[OF assms(1) cnt assms(4)] by blast
  have len: "length (yticklabels ax') = length (yticklabels ax)"
    by (simp add: ticks length_relabel)
  have each: "\<forall>i < length (yticklabels ax').
                 l_text (yticklabels ax' ! i) = tick_text labels i
                 \<and> l_ha (yticklabels ax' ! i) = Some (if flush then ''left'' else ''right'')"
    using len by (simp add: ticks nth_relabel)
  have shown: "yticklabels ax \<noteq> []
                \<and> (\<forall>t \<in> set (spare_ticks ax).
                      label_width extent t \<le> Max (label_width extent ` set (yticklabels ax')))
                \<longrightarrow> pad = Max (label_width extent ` set (yticklabels ax'))"
  proof
    assume a: "yticklabels ax \<noteq> []
                \<and> (\<forall>t \<in> set (spare_ticks ax).
                      label_width extent t \<le> Max (label_width extent ` set (yticklabels ax')))"
    define m where "m = Max (label_width extent ` set (yticklabels ax'))"
    have ne: "yticklabels ax' \<noteq> []" using a len by auto
    then have min: "m \<in> label_width extent ` set (yticklabels ax')"
      unfolding m_def by (intro Max_in) auto
    have "Max (label_width extent ` set (majorTicks ax')) = m"
    proof (rule Max_eqI)
      show "finite (label_width extent ` set (majorTicks ax'))" by simp
      show "m \<in> label_width extent ` set (majorTicks ax')"
        using min by (auto simp add: majorTicks_def)
      fix y assume "y \<in> label_width extent ` set (majorTicks ax')"
      then consider "y \<in> label_width extent ` set (yticklabels ax')"
        | "y \<in> label_width extent ` set (spare_ticks ax)"
        using spare by (auto simp add: majorTicks_def)
      then show "y \<le> m"
      proof cases
        case 1
        then show ?thesis unfolding m_def by (intro Max_ge) auto
      next
        case 2
        then show ?thesis using a unfolding m_def by auto
      qed
    qed
    then show "pad = Max (label_width extent ` set (yticklabels ax'))"
      using pad by (simp add: m_def)
  qed
  show ?thesis using run pad spare len each shown tp by blast
qed

theorem C3_left_pad_over_major_ticks_witness:
  "df_col short_df ''yticklabel'' = Inr [Str ''a'', Str ''bb'']
   \<and> fixed_locator stale_ax
   \<and> length (yticklabels stale_ax) = length [Str ''a'', Str ''bb'']
   \<and> majorTicks stale_ax \<noteq> []
   \<and> (\<exists>ax'. right_flush_yticklabels mono_extent short_df ''yticklabel'' True stale_ax no_kwargs
               = Inr (21, ax')
         \<and> Max (label_width mono_extent ` set (majorTicks ax')) = 21
         \<and> map l_text (yticklabels ax') = [''a'', ''bb'']
         \<and> map l_ha (yticklabels ax') = [Some ''left'', Some ''left'']
         \<and> ytick_pad ax' = 21)"
proof -
  have h1: "df_col short_df ''yticklabel'' = Inr [Str ''a'', Str ''bb'']"
    by code_simp
  have h2: "[Str ''a'', Str ''bb''] \<noteq> []" by simp
  have h3: "fixed_locator stale_ax \<longrightarrow> length (yticklabels stale_ax) = length [Str ''a'', Str ''bb'']"
    by (simp add: stale_ax_def mk_axes_def)
  have h4: "majorTicks stale_ax \<noteq> []"
    by (simp add: majorTicks_def stale_ax_def mk_axes_def)
  have n: "length (yticklabels stale_ax) = 2"
    by (simp add: stale_ax_def mk_axes_def)
  have p: "pad_of (right_flush_yticklabels mono_extent short_df ''yticklabel'' True stale_ax
             no_kwargs) = Inr 21"
    by code_simp
  from C3_left_pad_over_major_ticks [OF h1 h2 h3 h4, of mono_extent True no_kwargs]
  obtain pad ax' where
    run: "right_flush_yticklabels mono_extent short_df ''yticklabel'' True stale_ax no_kwargs
            = Inr (pad, ax')"
    and mx: "pad = Max (label_width mono_extent ` set (majorTicks ax'))"
    and len: "length (yticklabels ax') = length (yticklabels stale_ax)"
    and each: "\<forall>i < length (yticklabels ax').
                 l_text (yticklabels ax' ! i) = tick_text [Str ''a'', Str ''bb''] i
                 \<and> l_ha (yticklabels ax' ! i) = Some (if True then ''left'' else ''right'')"
    and tp: "ytick_pad ax' = (if True then pad else ytick_pad stale_ax)"
    by blast
  have pd: "pad = 21" using p run by (simp add: pad_of_def)
  have l2: "length (yticklabels ax') = 2" using len n by simp
  have e0: "l_text (yticklabels ax' ! 0) = ''a''" "l_ha (yticklabels ax' ! 0) = Some ''left''"
    using each l2 by (simp_all add: tick_text_def)
  have e1: "l_text (yticklabels ax' ! 1) = ''bb''" "l_ha (yticklabels ax' ! 1) = Some ''left''"
    using each l2 by (simp_all add: tick_text_def)
  have m1: "map l_text (yticklabels ax') = [''a'', ''bb'']"
    using l2 e0 e1 by (intro nth_equalityI) (auto simp add: less_Suc_eq numeral_2_eq_2)
  have m2: "map l_ha (yticklabels ax') = [Some ''left'', Some ''left'']"
    using l2 e0 e1 by (intro nth_equalityI) (auto simp add: less_Suc_eq numeral_2_eq_2)
  have fl: "fixed_locator stale_ax"
    by (simp add: stale_ax_def mk_axes_def)
  show ?thesis
    using h1 fl n h4 run mx tp pd m1 m2 by auto
qed

section \<open>The p-value column: \<open>draw_pval_right\<close>\<close>

lemma xlim_ax_text: "xlim (ax_text t ax) = xlim ax"
  by (simp add: ax_text_def)

lemma texts_ax_text: "texts (ax_text t ax) = texts ax @ [t]"
  by (simp add: ax_text_def)

lemma pval_loop_pad_irrelevant:
  "rs \<noteq> [] \<Longrightarrow> pval_loop cols ytl rs pad1 ax = pval_loop cols ytl rs pad2 ax"
  by (cases rs) (auto simp add: Let_def split: sum.splits)

lemma pval_loop_Inr:
  assumes "pval_loop cols ytl rs pad ax = Inr (p, ax')"
  shows "ax' = ax\<lparr>texts := texts ax @
             map (\<lambda>r. \<lparr>t_x = snd (xlim ax) * (1 + 0.05), t_y = CVal (snd r ytl),
                         t_s = (if isna (snd r ''formatted_pval'') then Str []
                                else snd r ''formatted_pval''),
                         t_ha = Some ''left'', t_va = Some ''center'',
                         t_family = None, t_weight = None, t_size = None\<rparr>) rs\<rparr>
         \<and> p = (if rs = [] then pad else snd (xlim ax) * (1 + 0.05))"
  using assms
proof (induction rs arbitrary: pad ax)
  case Nil
  then show ?case by simp
next
  case (Cons r rs)
  obtain ix row where r: "r = (ix, row)" by (cases r)
  from Cons.prems r have c1: "ytl \<in> set cols" and c2: "''formatted_pval'' \<in> set cols"
    by (auto simp add: row_get_def split: if_splits)
  define t where "t = \<lparr>t_x = snd (xlim ax) * (1 + 0.05), t_y = CVal (row ytl),
                         t_s = (if isna (row ''formatted_pval'') then Str []
                                else row ''formatted_pval''),
                         t_ha = Some ''left'', t_va = Some ''center'',
                         t_family = None, t_weight = None, t_size = None\<rparr>"
  have step: "pval_loop cols ytl rs (snd (xlim ax) * (1 + 0.05)) (ax_text t ax) = Inr (p, ax')"
    using Cons.prems r c1 c2 by (simp add: row_get_def Let_def t_def)
  from Cons.IH[OF step] show ?case
    by (simp add: r xlim_ax_text texts_ax_text t_def ax_text_def)
qed

lemma pval_loop_total:
  assumes "ytl \<in> set cols" and "''formatted_pval'' \<in> set cols"
  shows "\<exists>p ax'. pval_loop cols ytl rs pad ax = Inr (p, ax')"
  using assms
proof (induction rs arbitrary: pad ax)
  case Nil
  show ?case by simp
next
  case (Cons r rs)
  obtain ix row where r: "r = (ix, row)" by (cases r)
  show ?case using Cons by (simp add: r row_get_def Let_def)
qed


lemma draw_pval_right_Inr:
  assumes "pval \<noteq> None"
    and "draw_pval_right df pval annoteheaders ytl pad ax kw = Inr ax'"
  shows "ax' = ax\<lparr>texts := texts ax @
             map (\<lambda>r. \<lparr>t_x = snd (xlim ax) * (1 + 0.05), t_y = CVal (snd r ytl),
                         t_s = (if isna (snd r ''formatted_pval'') then Str []
                                else snd r ''formatted_pval''),
                         t_ha = Some ''left'', t_va = Some ''center'',
                         t_family = None, t_weight = None, t_size = None\<rparr>) (rows df) @
             (if kw_get kw ''pval_title'' (Str ''P-value'') = NoneV then []
              else if annoteheaders = None then
                [\<lparr>t_x = (if rows df = [] then pad else snd (xlim ax) * (1 + 0.05)),
                  t_y = CFlt (snd (ylim ax)),
                  t_s = kw_get kw ''pval_title'' (Str ''P-value''),
                  t_ha = None, t_va = None, t_family = None,
                  t_weight = Some (Str ''bold''), t_size = Some (IntV 10)\<rparr>]
              else
                [\<lparr>t_x = (if rows df = [] then pad else snd (xlim ax) * (1 + 0.05)),
                  t_y = CVal (IntV (int (length (yticklabels ax)) - 1)),
                  t_s = kw_get kw ''pval_title'' (Str ''P-value''),
                  t_ha = Some ''left'', t_va = Some ''center'', t_family = None,
                  t_weight = Some (kw_get kw ''pval_title_fontweight'' (Str ''bold'')),
                  t_size = Some (kw_get kw ''pval_title_fontsize'' (IntV 10))\<rparr>])\<rparr>"
proof -
  from assms obtain p ax1 where
    loop: "pval_loop (columns df) ytl (rows df) pad ax = Inr (p, ax1)"
    by (auto simp add: draw_pval_right_def split: sum.splits)
  note l = pval_loop_Inr[OF loop]
  have res: "draw_pval_right df pval annoteheaders ytl pad ax kw =
      (let pval_title = kw_get kw ''pval_title'' (Str ''P-value'')
       in if pval_title \<noteq> NoneV then
            (if annoteheaders = None then
               Inr (ax_text \<lparr>t_x = p, t_y = CFlt (snd (ylim ax1)), t_s = pval_title,
                         t_ha = None, t_va = None, t_family = None,
                         t_weight = Some (Str ''bold''), t_size = Some (IntV 10)\<rparr> ax1)
             else
               Inr (ax_text \<lparr>t_x = p, t_y = CVal (IntV (int (length (yticklabels ax1)) - 1)),
                         t_s = pval_title, t_ha = Some ''left'', t_va = Some ''center'',
                         t_family = None,
                         t_weight = Some (kw_get kw ''pval_title_fontweight'' (Str ''bold'')),
                         t_size = Some (kw_get kw ''pval_title_fontsize'' (IntV 10))\<rparr> ax1))
          else Inr ax1)"
    using assms(1) loop by (simp add: draw_pval_right_def Let_def)
  have y1: "ylim ax1 = ylim ax" and yt1: "yticklabels ax1 = yticklabels ax"
    using l by simp_all
  show ?thesis
  proof (cases "kw_get kw ''pval_title'' (Str ''P-value'') = NoneV")
    case True
    then have "ax' = ax1" using res assms(2) by (simp add: Let_def)
    then show ?thesis using l True by simp
  next
    case False
    show ?thesis
    proof (cases "annoteheaders = None")
      case True
      then show ?thesis
        using res assms(2) False l by (auto simp add: Let_def ax_text_def)
    next
      case h: False
      then show ?thesis
        using res assms(2) False l by (auto simp add: Let_def ax_text_def)
    qed
  qed
qed

lemma draw_pval_right_total:
  assumes "ytl \<in> set (columns df)" and "''formatted_pval'' \<in> set (columns df)"
  shows "\<exists>ax'. draw_pval_right df pval annoteheaders ytl pad ax kw = Inr ax'"
proof -
  obtain p ax1 where "pval_loop (columns df) ytl (rows df) pad ax = Inr (p, ax1)"
    using pval_loop_total[OF assms] by blast
  then show ?thesis
    by (simp add: draw_pval_right_def Let_def)
qed

text \<open>
  C5. With a p-value column given, every row of the table gets one text, in row order:
  at \<open>x\<close> = upper x limit times 1.05, at the \<open>y\<close> of the row's tick label, aligned left
  and centred vertically, showing the row's formatted p-value, or the empty string where
  that value is missing.
\<close>

theorem C5_pval_text_per_row:
  assumes "pval \<noteq> None"
    and "yticklabel \<in> set (columns df)" and "''formatted_pval'' \<in> set (columns df)"
  shows "\<exists>ax'. draw_pval_right df pval annoteheaders yticklabel pad ax kw = Inr ax'
           \<and> xlim ax' = xlim ax
           \<and> take (length (texts ax)) (texts ax') = texts ax
           \<and> (\<forall>i < length (rows df).
                 texts ax' ! (length (texts ax) + i) =
                   \<lparr>t_x = snd (xlim ax) * 1.05,
                    t_y = CVal (snd (rows df ! i) yticklabel),
                    t_s = (if isna (snd (rows df ! i) ''formatted_pval'') then Str []
                           else snd (rows df ! i) ''formatted_pval''),
                    t_ha = Some ''left'', t_va = Some ''center'',
                    t_family = None, t_weight = None, t_size = None\<rparr>)"
proof -
  obtain ax' where run: "draw_pval_right df pval annoteheaders yticklabel pad ax kw = Inr ax'"
    using draw_pval_right_total[OF assms(2,3)] by blast
  note r = draw_pval_right_Inr[OF assms(1) run]
  have x: "xlim ax' = xlim ax"
    by (subst r) simp
  have "\<exists>extra. texts ax' = texts ax @
       map (\<lambda>r. \<lparr>t_x = snd (xlim ax) * (1 + 0.05), t_y = CVal (snd r yticklabel),
                   t_s = (if isna (snd r ''formatted_pval'') then Str []
                          else snd r ''formatted_pval''),
                   t_ha = Some ''left'', t_va = Some ''center'',
                   t_family = None, t_weight = None, t_size = None\<rparr>) (rows df) @ extra"
    by (subst r) simp
  then obtain extra where tx: "texts ax' = texts ax @
       map (\<lambda>r. \<lparr>t_x = snd (xlim ax) * (1 + 0.05), t_y = CVal (snd r yticklabel),
                   t_s = (if isna (snd r ''formatted_pval'') then Str []
                          else snd r ''formatted_pval''),
                   t_ha = Some ''left'', t_va = Some ''center'',
                   t_family = None, t_weight = None, t_size = None\<rparr>) (rows df) @ extra"
    by blast
  have tk: "take (length (texts ax)) (texts ax') = texts ax"
    by (simp add: tx)
  have nth: "\<forall>i < length (rows df).
                 texts ax' ! (length (texts ax) + i) =
                   \<lparr>t_x = snd (xlim ax) * 1.05,
                    t_y = CVal (snd (rows df ! i) yticklabel),
                    t_s = (if isna (snd (rows df ! i) ''formatted_pval'') then Str []
                           else snd (rows df ! i) ''formatted_pval''),
                    t_ha = Some ''left'', t_va = Some ''center'',
                    t_family = None, t_weight = None, t_size = None\<rparr>"
    by (simp add: tx nth_append)
  show ?thesis using run x tk nth by blast
qed

theorem C5_pval_text_per_row_witness:
  "''yticklabel'' \<in> set (columns two_df) \<and> ''formatted_pval'' \<in> set (columns two_df)
   \<and> (\<exists>ax'. draw_pval_right two_df (Some ''pval'') None ''yticklabel'' 0 pval_ax no_kwargs
               = Inr ax'
         \<and> texts ax' ! 0 =
             \<lparr>t_x = 2 * 1.05, t_y = CVal (Str ''age''), t_s = Str ''0.04'',
              t_ha = Some ''left'', t_va = Some ''center'',
              t_family = None, t_weight = None, t_size = None\<rparr>
         \<and> texts ax' ! 1 =
             \<lparr>t_x = 2 * 1.05, t_y = CVal (Str ''body mass index''), t_s = Str [],
              t_ha = Some ''left'', t_va = Some ''center'',
              t_family = None, t_weight = None, t_size = None\<rparr>)"
proof -
  have h1: "Some ''pval'' \<noteq> None" by simp
  have h2: "''yticklabel'' \<in> set (columns two_df)" by (simp add: two_df_def)
  have h3: "''formatted_pval'' \<in> set (columns two_df)" by (simp add: two_df_def)
  have n: "length (texts pval_ax) = 0" "snd (xlim pval_ax) = 2"
    by (simp_all add: pval_ax_def mk_axes_def)
  have r0: "snd (rows two_df ! 0) ''yticklabel'' = Str ''age''"
    "snd (rows two_df ! 0) ''formatted_pval'' = Str ''0.04''"
    by (simp_all add: two_df_def mkrow_def)
  have r1: "snd (rows two_df ! 1) ''yticklabel'' = Str ''body mass index''"
    "snd (rows two_df ! 1) ''formatted_pval'' = NaN"
    by (simp_all add: two_df_def mkrow_def)
  have l: "length (rows two_df) = 2" by (simp add: two_df_def)
  from C5_pval_text_per_row [OF h1 h2 h3, of None 0 pval_ax no_kwargs]
  obtain ax' where run:
    "draw_pval_right two_df (Some ''pval'') None ''yticklabel'' 0 pval_ax no_kwargs = Inr ax'"
    and nth: "\<forall>i < length (rows two_df).
                 texts ax' ! (length (texts pval_ax) + i) =
                   \<lparr>t_x = snd (xlim pval_ax) * 1.05,
                    t_y = CVal (snd (rows two_df ! i) ''yticklabel''),
                    t_s = (if isna (snd (rows two_df ! i) ''formatted_pval'') then Str []
                           else snd (rows two_df ! i) ''formatted_pval''),
                    t_ha = Some ''left'', t_va = Some ''center'',
                    t_family = None, t_weight = None, t_size = None\<rparr>"
    by blast
  have t0: "texts ax' ! 0 =
             \<lparr>t_x = 2 * 1.05, t_y = CVal (Str ''age''), t_s = Str ''0.04'',
              t_ha = Some ''left'', t_va = Some ''center'',
              t_family = None, t_weight = None, t_size = None\<rparr>"
    using nth[rule_format, of 0] l n r0 by simp
  have t1: "texts ax' ! 1 =
             \<lparr>t_x = 2 * 1.05, t_y = CVal (Str ''body mass index''), t_s = Str [],
              t_ha = Some ''left'', t_va = Some ''center'',
              t_family = None, t_weight = None, t_size = None\<rparr>"
    using nth[rule_format, of 1] l n r1 by simp
  show ?thesis using h2 h3 run t0 t1 by blast
qed

text \<open>
  C7. The claim: a requested p-value title is drawn once at the top of the y range when
  there are no left-side annotation headers, and drawn bold at the last tick row when
  there are. On the code the weight of the title at the last tick row is the keyword
  option \<open>pval_title_fontweight\<close>: asked for a light title, the code draws it light.
\<close>

theorem C7_title_weight_counterexample:
  "text_weights (draw_pval_right two_df (Some ''pval'') (Some [''N'']) ''yticklabel'' 0 pval_ax
                   light_kw)
     = Inr [None, None, Some (Str ''light'')]
   \<and> text_weights (draw_pval_right two_df (Some ''pval'') (Some [''N'']) ''yticklabel'' 0 pval_ax
                   light_kw)
     \<noteq> Inr [None, None, Some (Str ''bold'')]"
  by code_simp

text \<open>
  C7 as amended: with a p-value column and a title that is not \<open>None\<close>, exactly one text
  follows the row texts. Without left-side annotation headers it is the title at the
  upper y limit of the axes, in bold. With them it is the title at the index of the last
  tick, in the weight \<open>pval_title_fontweight\<close>, which is bold unless the caller overrides
  it.
\<close>

theorem C7_pval_title_placement:
  assumes "pval \<noteq> None"
    and "yticklabel \<in> set (columns df)" and "''formatted_pval'' \<in> set (columns df)"
    and "kw_get kw ''pval_title'' (Str ''P-value'') \<noteq> NoneV"
  shows "\<exists>ax'. draw_pval_right df pval annoteheaders yticklabel pad ax kw = Inr ax'
           \<and> length (texts ax') = length (texts ax) + length (rows df) + 1
           \<and> (annoteheaders = None \<longrightarrow>
                last (texts ax') =
                  \<lparr>t_x = (if rows df = [] then pad else snd (xlim ax) * (1 + 0.05)),
                   t_y = CFlt (snd (ylim ax)),
                   t_s = kw_get kw ''pval_title'' (Str ''P-value''),
                   t_ha = None, t_va = None, t_family = None,
                   t_weight = Some (Str ''bold''), t_size = Some (IntV 10)\<rparr>)
           \<and> (annoteheaders \<noteq> None \<longrightarrow>
                last (texts ax') =
                  \<lparr>t_x = (if rows df = [] then pad else snd (xlim ax) * (1 + 0.05)),
                   t_y = CVal (IntV (int (length (yticklabels ax)) - 1)),
                   t_s = kw_get kw ''pval_title'' (Str ''P-value''),
                   t_ha = Some ''left'', t_va = Some ''center'', t_family = None,
                   t_weight = Some (kw_get kw ''pval_title_fontweight'' (Str ''bold'')),
                   t_size = Some (kw_get kw ''pval_title_fontsize'' (IntV 10))\<rparr>)
           \<and> (annoteheaders \<noteq> None \<and> kw ''pval_title_fontweight'' = None \<longrightarrow>
                t_weight (last (texts ax')) = Some (Str ''bold''))"
proof -
  obtain ax' where run: "draw_pval_right df pval annoteheaders yticklabel pad ax kw = Inr ax'"
    using draw_pval_right_total[OF assms(2,3)] by blast
  note r = draw_pval_right_Inr[OF assms(1) run]
  have len: "length (texts ax') = length (texts ax) + length (rows df) + 1"
    using assms(4) by (subst r) simp
  have a: "annoteheaders = None \<longrightarrow>
                last (texts ax') =
                  \<lparr>t_x = (if rows df = [] then pad else snd (xlim ax) * (1 + 0.05)),
                   t_y = CFlt (snd (ylim ax)),
                   t_s = kw_get kw ''pval_title'' (Str ''P-value''),
                   t_ha = None, t_va = None, t_family = None,
                   t_weight = Some (Str ''bold''), t_size = Some (IntV 10)\<rparr>"
    using assms(4) by (subst r) simp
  have b: "annoteheaders \<noteq> None \<longrightarrow>
                last (texts ax') =
                  \<lparr>t_x = (if rows df = [] then pad else snd (xlim ax) * (1 + 0.05)),
                   t_y = CVal (IntV (int (length (yticklabels ax)) - 1)),
                   t_s = kw_get kw ''pval_title'' (Str ''P-value''),
                   t_ha = Some ''left'', t_va = Some ''center'', t_family = None,
                   t_weight = Some (kw_get kw ''pval_title_fontweight'' (Str ''bold'')),
                   t_size = Some (kw_get kw ''pval_title_fontsize'' (IntV 10))\<rparr>"
    using assms(4) by (subst r) simp
  have c: "annoteheaders \<noteq> None \<and> kw ''pval_title_fontweight'' = None \<longrightarrow>
                t_weight (last (texts ax')) = Some (Str ''bold'')"
    using b by (simp add: kw_get_def)
  show ?thesis using run len a b c by blast
qed

theorem C7_pval_title_placement_witness:
  "''yticklabel'' \<in> set (columns two_df) \<and> ''formatted_pval'' \<in> set (columns two_df)
   \<and> kw_get no_kwargs ''pval_title'' (Str ''P-value'') \<noteq> NoneV
   \<and> (\<exists>ax'. draw_pval_right two_df (Some ''pval'') (Some [''N'']) ''yticklabel'' 0 pval_ax
               no_kwargs = Inr ax'
         \<and> length (texts ax') = 3
         \<and> t_y (last (texts ax')) = CVal (IntV 1)
         \<and> t_s (last (texts ax')) = Str ''P-value''
         \<and> t_weight (last (texts ax')) = Some (Str ''bold''))"
proof -
  have h1: "Some ''pval'' \<noteq> None" by simp
  have h2: "''yticklabel'' \<in> set (columns two_df)" by (simp add: two_df_def)
  have h3: "''formatted_pval'' \<in> set (columns two_df)" by (simp add: two_df_def)
  have h4: "kw_get no_kwargs ''pval_title'' (Str ''P-value'') \<noteq> NoneV"
    by (simp add: kw_get_def no_kwargs_def)
  have n: "length (texts pval_ax) = 0" "length (rows two_df) = 2"
    "length (yticklabels pval_ax) = 2"
    by (simp_all add: pval_ax_def mk_axes_def two_df_def)
  from C7_pval_title_placement [OF h1 h2 h3 h4, of "Some [''N'']" 0 pval_ax]
  obtain ax' where
    "draw_pval_right two_df (Some ''pval'') (Some [''N'']) ''yticklabel'' 0 pval_ax no_kwargs
       = Inr ax'"
    "length (texts ax') = length (texts pval_ax) + length (rows two_df) + 1"
    "last (texts ax') =
       \<lparr>t_x = (if rows two_df = [] then 0 else snd (xlim pval_ax) * (1 + 0.05)),
        t_y = CVal (IntV (int (length (yticklabels pval_ax)) - 1)),
        t_s = kw_get no_kwargs ''pval_title'' (Str ''P-value''),
        t_ha = Some ''left'', t_va = Some ''center'', t_family = None,
        t_weight = Some (kw_get no_kwargs ''pval_title_fontweight'' (Str ''bold'')),
        t_size = Some (kw_get no_kwargs ''pval_title_fontsize'' (IntV 10))\<rparr>"
    by auto
  then show ?thesis
    using h2 h3 h4 n by (auto simp add: kw_get_def no_kwargs_def)
qed

text \<open>
  C9. For a table with at least one row and a p-value column given, two runs that differ
  only in the \<open>pad\<close> argument give the same result, and every text of a run lies at
  \<open>x\<close> = upper x limit times \<open>1 + 0.05\<close>.
\<close>

theorem C9_pad_noninterference:
  assumes "rows df \<noteq> []" and "pval \<noteq> None"
  shows "draw_pval_right df pval annoteheaders yticklabel pad1 ax kw
           = draw_pval_right df pval annoteheaders yticklabel pad2 ax kw
         \<and> (\<forall>ax'. draw_pval_right df pval annoteheaders yticklabel pad1 ax kw = Inr ax' \<longrightarrow>
               (\<forall>t \<in> set (drop (length (texts ax)) (texts ax')).
                   t_x t = snd (xlim ax) * (1 + 0.05)))"
proof
  have "pval_loop (columns df) yticklabel (rows df) pad1 ax
          = pval_loop (columns df) yticklabel (rows df) pad2 ax"
    using assms(1) by (rule pval_loop_pad_irrelevant)
  then show "draw_pval_right df pval annoteheaders yticklabel pad1 ax kw
           = draw_pval_right df pval annoteheaders yticklabel pad2 ax kw"
    by (simp add: draw_pval_right_def)
  show "\<forall>ax'. draw_pval_right df pval annoteheaders yticklabel pad1 ax kw = Inr ax' \<longrightarrow>
               (\<forall>t \<in> set (drop (length (texts ax)) (texts ax')).
                   t_x t = snd (xlim ax) * (1 + 0.05))"
  proof (intro allI impI)
    fix ax'
    assume run: "draw_pval_right df pval annoteheaders yticklabel pad1 ax kw = Inr ax'"
    show "\<forall>t \<in> set (drop (length (texts ax)) (texts ax')). t_x t = snd (xlim ax) * (1 + 0.05)"
      using assms(1) by (subst draw_pval_right_Inr[OF assms(2) run]) auto
  qed
qed

theorem C9_pad_noninterference_witness:
  "rows two_df \<noteq> []
   \<and> draw_pval_right two_df (Some ''pval'') None ''yticklabel'' 0 pval_ax no_kwargs
       = draw_pval_right two_df (Some ''pval'') None ''yticklabel'' 105 pval_ax no_kwargs"
proof -
  have h1: "rows two_df \<noteq> []" by (simp add: two_df_def)
  have h2: "Some ''pval'' \<noteq> None" by simp
  show ?thesis
    using h1 C9_pad_noninterference [OF h1 h2, of None "''yticklabel''" 0 pval_ax no_kwargs 105]
    by blast
qed

text \<open>Without rows the loop never assigns \<open>pad\<close>, and the title lies at the argument.\<close>

lemma pad_matters_without_rows:
  "draw_pval_right no_rows_df (Some ''pval'') None ''yticklabel'' 0 (mk_axes []) no_kwargs
     \<noteq> draw_pval_right no_rows_df (Some ''pval'') None ''yticklabel'' 105 (mk_axes []) no_kwargs"
  by code_simp

section \<open>The second label column: \<open>draw_ylabel2\<close>\<close>

text \<open>
  With its two columns present the function draws one text per row and hands the value of
  \<open>yticklabel2\<close> to \<open>ax.text\<close> as it is; the row whose index label is the number of rows
  minus one gets the weight and size of the group labels, every other row gets neither.
\<close>

lemma ylabel2_loop_texts:
  assumes "''yticklabel'' \<in> set cols" and "''yticklabel2'' \<in> set cols"
  shows "ylabel2_loop cols g w sz rs ax =
           Inr (ax\<lparr>texts := texts ax @
                  map (\<lambda>r. \<lparr>t_x = snd (xlim ax) * (1 + 0.05),
                              t_y = CVal (snd r ''yticklabel''),
                              t_s = snd r ''yticklabel2'',
                              t_ha = Some ''left'', t_va = Some ''center'',
                              t_family = Some ''monospace'',
                              t_weight = (if fst r = g then Some w else None),
                              t_size = (if fst r = g then Some sz else None)\<rparr>) rs\<rparr>)"
proof (induction rs arbitrary: ax)
  case Nil
  show ?case by simp
next
  case (Cons r rs)
  obtain ix row where r: "r = (ix, row)" by (cases r)
  show ?case
    using assms by (simp add: r row_get_def Let_def Cons.IH xlim_ax_text) (simp add: ax_text_def)
qed

lemma draw_ylabel2_rows:
  assumes "''yticklabel'' \<in> set (columns df)" and "''yticklabel2'' \<in> set (columns df)"
  shows "draw_ylabel2 df ax kw =
           Inr (ax\<lparr>texts := texts ax @
                  map (\<lambda>r. \<lparr>t_x = snd (xlim ax) * (1 + 0.05),
                              t_y = CVal (snd r ''yticklabel''),
                              t_s = snd r ''yticklabel2'',
                              t_ha = Some ''left'', t_va = Some ''center'',
                              t_family = Some ''monospace'',
                              t_weight = (if fst r = int (length (rows df)) - 1
                                          then Some (kw_get kw ''grouplab_fontweight'' (Str ''bold''))
                                          else None),
                              t_size = (if fst r = int (length (rows df)) - 1
                                        then Some (kw_get kw ''grouplab_size'' (IntV 10))
                                        else None)\<rparr>) (rows df)\<rparr>)"
  by (simp add: draw_ylabel2_def Let_def ylabel2_loop_texts[OF assms])

text \<open>
  C6. The claim: the row with index \<open>rowCount - 1\<close> is drawn bold in the larger size, the
  others in default weight, and a missing second label shows as empty text. Evaluated on
  three rows, the middle one without a second label: the missing value reaches
  \<open>ax.text\<close> unreplaced and shows as \<open>nan\<close>, where \<open>draw_pval_right\<close> replaces a
  missing value by the empty string.
\<close>

theorem C6_missing_second_label_shown:
  "drawn_text (draw_ylabel2 ylabel2_df ylabel2_ax no_kwargs) = Inr [''12'', ''nan'', ''N'']
   \<and> drawn_text (draw_pval_right two_df (Some ''pval'') None ''yticklabel'' 0 pval_ax no_kwargs)
       = Inr [''0.04'', [], ''P-value'']"
  by code_simp

section \<open>The y-axis label: \<open>draw_ylabel1\<close>\<close>



section \<open>Group labels: \<open>format_grouplabels\<close> and the groups of \<open>draw_alt_row_colors\<close>\<close>

text \<open>
  What the two membership tests compare. In \<open>format_grouplabels\<close> a tick label is
  formatted when some string of the group column, in lower case, equals the tick text in
  lower case and stripped; a group value that is no string formats nothing. In
  \<open>draw_alt_row_colors\<close> the group names are the strings of the column stripped and in
  lower case.
\<close>

lemma grouplabel_inner_eq:
  "grouplabel_inner w sz grs t =
     (if \<exists>g. Str g \<in> set grs \<and> lower g = strip (lower (l_text t))
      then t\<lparr>l_weight := Some w, l_size := Some sz\<rparr> else t)"
proof (induction grs arbitrary: t)
  case Nil
  show ?case by simp
next
  case (Cons gr grs)
  show ?case
  proof (cases gr)
    case (Str g)
    then show ?thesis by (auto simp add: Cons.IH)
  next
    case (IntV i)
    then show ?thesis by (simp add: Cons.IH)
  next
    case NoneV
    then show ?thesis by (simp add: Cons.IH)
  next
    case NaN
    then show ?thesis by (simp add: Cons.IH)
  qed
qed

lemma set_group_names: "set (group_names vs) = {lower (strip g) | g. Str g \<in> set vs}"
  by (induction vs rule: group_names.induct) auto

lemma set_unique: "set (unique vs) = set vs"
  by (simp add: unique_def)

lemma grouplabel_outer_length:
  "grouplabel_outer df gv w sz ts = Inr ts' \<Longrightarrow> length ts' = length ts"
  by (induction ts arbitrary: ts') (auto split: sum.splits)

lemma grouplabel_outer_total:
  "df_col df gv = Inr col \<Longrightarrow> \<exists>ts'. grouplabel_outer df gv w sz ts = Inr ts'"
  by (induction ts) auto

lemma format_grouplabels_total:
  assumes "groups_of df groupvar = Inr gs"
  shows "\<exists>axg. format_grouplabels df groupvar ax kw = Inr axg
           \<and> length (yticklabels axg) = length (yticklabels ax)"
proof (cases groupvar)
  case None
  then show ?thesis by (simp add: format_grouplabels_def)
next
  case (Some gv)
  with assms obtain col where col: "df_col df gv = Inr col"
    by (auto simp add: groups_of_def split: sum.splits)
  obtain ts' where ts': "grouplabel_outer df gv (kw_get kw ''grouplab_fontweight'' (Str ''bold''))
       (kw_get kw ''grouplab_size'' (IntV 10)) (yticklabels ax) = Inr ts'"
    using grouplabel_outer_total[OF col] by blast
  have "length ts' = length (yticklabels ax)"
    using grouplabel_outer_length[OF ts'] .
  then show ?thesis using Some ts' by (simp add: format_grouplabels_def Let_def)
qed

text \<open>
  C8. The claim: the group test of both functions ignores case and outer white space on
  the group value and on the tick text, and a value that is no string counts as no group
  without an error. Evaluated on a group named with a leading blank:
  \<open>format_grouplabels\<close> leaves the group's tick label unformatted, because it does not
  strip the group value, while \<open>draw_alt_row_colors\<close> strips it, takes the same tick for
  a group row and restarts the shading after it.
\<close>

theorem C8_group_value_not_trimmed:
  "tick_weights (format_grouplabels blank_df (Some ''group'') blank_ax no_kwargs)
     = Inr [None, None, None]
   \<and> groups_of blank_df (Some ''group'') = Inr [''a'']
   \<and> shading_of (draw_alt_row_colors blank_df (Some ''group'') None None blank_ax no_kwargs) 3
       = Inr [False, False, True]"
  by code_simp

text \<open>
  Had the loop of \<open>draw_alt_row_colors\<close> not taken the tick for a group row, the three
  ticks would come out as unshaded, shaded, unshaded.
\<close>

theorem C8_group_value_not_trimmed_witness:
  "tick_weights (format_grouplabels blank_df (Some ''group'') blank_ax no_kwargs)
     \<noteq> Inr [None, Some (Str ''bold''), None]
   \<and> shading_of (draw_alt_row_colors blank_df (Some ''group'') None None blank_ax no_kwargs) 3
       \<noteq> Inr [False, True, False]"
  using C8_group_value_not_trimmed by simp

section \<open>The table header row\<close>

lemma alt_loop_new_spans:
  "\<exists>new. spans (alt_loop he n gs c ix k ts ax) = spans ax @ new
     \<and> (\<forall>sp \<in> set new. \<exists>i. \<not> (he \<and> int i = int n - 1)
            \<and> sp_ymin sp = real i - 0.5 \<and> sp_ymax sp = real i + 0.5)"
proof (induction ts arbitrary: ix k ax)
  case Nil
  show ?case by simp
next
  case (Cons t ts)
  show ?case
  proof (cases "he \<and> int ix = int n - 1")
    case True
    then show ?thesis by simp
  next
    case nobreak: False
    show ?thesis
    proof (cases "strip (lower (l_text t)) \<in> set gs")
      case True
      then show ?thesis using nobreak Cons.IH[of "ix + 1" 2 ax] by (simp add: Let_def)
    next
      case nogroup: False
      show ?thesis
      proof (cases "k mod 2 = 0")
        case False
        then show ?thesis
          using nobreak nogroup Cons.IH[of "ix + 1" "k + 1" ax] by (simp add: Let_def)
      next
        case True
        define ax1 where "ax1 = axhspan (real ix - 0.5) (real ix + 0.5) c 0.08 0 ax"
        obtain new where n: "spans (alt_loop he n gs c (ix + 1) (k + 1) ts ax1) = spans ax1 @ new"
          and p: "\<forall>sp \<in> set new. \<exists>i. \<not> (he \<and> int i = int n - 1)
            \<and> sp_ymin sp = real i - 0.5 \<and> sp_ymax sp = real i + 0.5"
          using Cons.IH[of "ix + 1" "k + 1" ax1] by blast
        define sp0 where "sp0 = \<lparr>sp_ymin = real ix - 0.5, sp_ymax = real ix + 0.5,
                                  sp_color = c, sp_alpha = 0.08, sp_zorder = 0\<rparr>"
        have s1: "spans ax1 = spans ax @ [sp0]"
          by (simp add: ax1_def sp0_def spans_axhspan)
        have run: "alt_loop he n gs c ix k (t # ts) ax = alt_loop he n gs c (ix + 1) (k + 1) ts ax1"
          using nobreak nogroup True by (auto simp add: Let_def ax1_def)
        have q: "\<forall>sp \<in> set (sp0 # new). \<exists>i. \<not> (he \<and> int i = int n - 1)
            \<and> sp_ymin sp = real i - 0.5 \<and> sp_ymax sp = real i + 0.5"
        proof
          fix sp assume "sp \<in> set (sp0 # new)"
          then consider "sp = sp0" | "sp \<in> set new" by auto
          then show "\<exists>i. \<not> (he \<and> int i = int n - 1)
            \<and> sp_ymin sp = real i - 0.5 \<and> sp_ymax sp = real i + 0.5"
          proof cases
            case 1
            have "\<not> (he \<and> int ix = int n - 1) \<and> sp_ymin sp0 = real ix - 0.5
                \<and> sp_ymax sp0 = real ix + 0.5"
              using nobreak by (simp add: sp0_def)
            then show ?thesis using 1 by blast
          next
            case 2
            then show ?thesis using p by blast
          qed
        qed
        have "spans (alt_loop he n gs c ix k (t # ts) ax) = spans ax @ (sp0 # new)"
          using run n s1 by simp
        then show ?thesis using q by blast
      qed
    qed
  qed
qed

lemma py_index_last:
  "xs \<noteq> [] \<Longrightarrow> py_index xs (int (length xs) - 1) = Inr (length xs - 1)"
  by (cases xs) (simp_all add: py_index_def Let_def)

lemma format_tableheader_last:
  assumes "annoteheaders \<noteq> None \<or> right_annoteheaders \<noteq> None"
    and "yticklabels ax \<noteq> []"
  shows "\<exists>ax2. format_tableheader annoteheaders right_annoteheaders ax kw = Inr ax2
           \<and> length (yticklabels ax2) = length (yticklabels ax)
           \<and> l_weight (last (yticklabels ax2))
               = Some (kw_get kw ''tableheader_fontweight'' (Str ''bold''))
           \<and> l_size (last (yticklabels ax2))
               = Some (kw_get kw ''tableheader_fontsize'' (IntV 10))
           \<and> l_text (last (yticklabels ax2)) = l_text (last (yticklabels ax))"
proof -
  define ts where "ts = yticklabels ax"
  define j where "j = length ts - 1"
  have ne: "ts \<noteq> []" using assms(2) by (simp add: ts_def)
  have j: "j < length ts" using ne by (simp add: j_def)
  have ix: "py_index ts (int (length ts) - 1) = Inr j"
    using py_index_last[OF ne] by (simp add: j_def)
  define t' where "t' = (ts ! j)\<lparr>l_weight := Some (kw_get kw ''tableheader_fontweight'' (Str ''bold'')),
                                 l_size := Some (kw_get kw ''tableheader_fontsize'' (IntV 10))\<rparr>"
  have run: "format_tableheader annoteheaders right_annoteheaders ax kw
      = Inr (ax\<lparr>yticklabels := ts[j := t']\<rparr>)"
    using assms(1) ix by (auto simp add: format_tableheader_def Let_def ts_def[symmetric] t'_def)
  have l: "last (ts[j := t']) = t'"
    using ne j by (simp add: last_conv_nth j_def)
  have l0: "last ts = ts ! j"
    using ne by (simp add: last_conv_nth j_def)
  show ?thesis
    using run l l0 by (simp add: t'_def ts_def[symmetric])
qed

text \<open>
  C4. The claim: with a header list given, the last tick row is never shaded by
  \<open>draw_alt_row_colors\<close> and receives bold weight and the configured header size from
  \<open>format_tableheader\<close>, whatever the group-label formatting. On the code the weight is
  the keyword option \<open>tableheader_fontweight\<close>: asked for a header in normal weight, the
  code sets normal weight on the last tick label.
\<close>

theorem C4_header_weight_counterexample:
  "tick_weights (format_tableheader (Some [''N'']) None header_ax normal_kw)
     = Inr [None, None, Some (Str ''normal'')]
   \<and> tick_weights (format_tableheader (Some [''N'']) None header_ax normal_kw)
     \<noteq> Inr [None, None, Some (Str ''bold'')]"
  by code_simp

text \<open>
  C4 as amended: with a header list given and at least one tick, \<open>draw_alt_row_colors\<close>
  adds no band over the last tick; \<open>format_tableheader\<close> gives the last tick label the
  weight \<open>tableheader_fontweight\<close>, which is bold unless the caller overrides it, and the
  size \<open>tableheader_fontsize\<close>; and it does so on the axes that \<open>format_grouplabels\<close>
  returns, whatever that function has set on the label.
\<close>

theorem C4_header_row_unshaded_and_bold:
  assumes "annoteheaders \<noteq> None \<or> right_annoteheaders \<noteq> None"
    and "yticklabels ax \<noteq> []"
    and "groups_of df groupvar = Inr gs"
  shows "(\<exists>ax1. draw_alt_row_colors df groupvar annoteheaders right_annoteheaders ax kw = Inr ax1
            \<and> (\<forall>sp \<in> set (drop (length (spans ax)) (spans ax1)).
                  \<not> (sp_ymin sp = real (length (yticklabels ax) - 1) - 0.5
                     \<and> sp_ymax sp = real (length (yticklabels ax) - 1) + 0.5)))
         \<and> (\<exists>ax2. format_tableheader annoteheaders right_annoteheaders ax kw = Inr ax2
            \<and> l_weight (last (yticklabels ax2))
                = Some (kw_get kw ''tableheader_fontweight'' (Str ''bold''))
            \<and> (kw ''tableheader_fontweight'' = None \<longrightarrow>
                  l_weight (last (yticklabels ax2)) = Some (Str ''bold''))
            \<and> l_size (last (yticklabels ax2))
                = Some (kw_get kw ''tableheader_fontsize'' (IntV 10))
            \<and> l_text (last (yticklabels ax2)) = l_text (last (yticklabels ax)))
         \<and> (\<exists>axg ax3. format_grouplabels df groupvar ax kw = Inr axg
            \<and> format_tableheader annoteheaders right_annoteheaders axg kw = Inr ax3
            \<and> l_weight (last (yticklabels ax3))
                = Some (kw_get kw ''tableheader_fontweight'' (Str ''bold''))
            \<and> l_size (last (yticklabels ax3))
                = Some (kw_get kw ''tableheader_fontsize'' (IntV 10)))"
proof (intro conjI)
  define he where "he = (annoteheaders \<noteq> None \<or> right_annoteheaders \<noteq> None)"
  define n where "n = length (yticklabels ax)"
  have he: he using assms(1) by (simp add: he_def)
  have n: "0 < n" using assms(2) by (simp add: n_def)
  define ax1 where "ax1 = alt_loop he n gs (kw_get kw ''row_color'' (Str ''black'')) 0 1
                            (yticklabels ax) ax"
  have run: "draw_alt_row_colors df groupvar annoteheaders right_annoteheaders ax kw = Inr ax1"
    using assms(3) by (simp add: draw_alt_row_colors_def Let_def ax1_def he_def n_def)
  obtain new where new: "spans ax1 = spans ax @ new"
    and p: "\<forall>sp \<in> set new. \<exists>i. \<not> (he \<and> int i = int n - 1)
            \<and> sp_ymin sp = real i - 0.5 \<and> sp_ymax sp = real i + 0.5"
    unfolding ax1_def using alt_loop_new_spans by blast
  have "\<forall>sp \<in> set new. \<not> (sp_ymin sp = real (n - 1) - 0.5 \<and> sp_ymax sp = real (n - 1) + 0.5)"
  proof
    fix sp assume "sp \<in> set new"
    then obtain i where i: "int i \<noteq> int n - 1" and y: "sp_ymin sp = real i - 0.5"
      using p he by blast
    have "i \<noteq> n - 1" using i n by auto
    then have "real i \<noteq> real (n - 1)" by simp
    then show "\<not> (sp_ymin sp = real (n - 1) - 0.5 \<and> sp_ymax sp = real (n - 1) + 0.5)"
      using y by simp
  qed
  then show "\<exists>ax1. draw_alt_row_colors df groupvar annoteheaders right_annoteheaders ax kw = Inr ax1
            \<and> (\<forall>sp \<in> set (drop (length (spans ax)) (spans ax1)).
                  \<not> (sp_ymin sp = real (length (yticklabels ax) - 1) - 0.5
                     \<and> sp_ymax sp = real (length (yticklabels ax) - 1) + 0.5))"
    using run new by (simp add: n_def)
next
  obtain ax2 where r: "format_tableheader annoteheaders right_annoteheaders ax kw = Inr ax2"
    and w: "l_weight (last (yticklabels ax2))
               = Some (kw_get kw ''tableheader_fontweight'' (Str ''bold''))"
    and s: "l_size (last (yticklabels ax2))
               = Some (kw_get kw ''tableheader_fontsize'' (IntV 10))"
    and t: "l_text (last (yticklabels ax2)) = l_text (last (yticklabels ax))"
    using format_tableheader_last[OF assms(1,2)] by blast
  have "kw ''tableheader_fontweight'' = None \<longrightarrow>
          l_weight (last (yticklabels ax2)) = Some (Str ''bold'')"
    using w by (simp add: kw_get_def)
  then show "\<exists>ax2. format_tableheader annoteheaders right_annoteheaders ax kw = Inr ax2
            \<and> l_weight (last (yticklabels ax2))
                = Some (kw_get kw ''tableheader_fontweight'' (Str ''bold''))
            \<and> (kw ''tableheader_fontweight'' = None \<longrightarrow>
                  l_weight (last (yticklabels ax2)) = Some (Str ''bold''))
            \<and> l_size (last (yticklabels ax2))
                = Some (kw_get kw ''tableheader_fontsize'' (IntV 10))
            \<and> l_text (last (yticklabels ax2)) = l_text (last (yticklabels ax))"
    using r w s t by (intro exI[of _ ax2]) simp
next
  obtain axg where g: "format_grouplabels df groupvar ax kw = Inr axg"
    and len: "length (yticklabels axg) = length (yticklabels ax)"
    using format_grouplabels_total[OF assms(3)] by blast
  have ne: "yticklabels axg \<noteq> []"
    using len assms(2) by auto
  obtain ax3 where "format_tableheader annoteheaders right_annoteheaders axg kw = Inr ax3"
    and "l_weight (last (yticklabels ax3))
               = Some (kw_get kw ''tableheader_fontweight'' (Str ''bold''))"
    and "l_size (last (yticklabels ax3))
               = Some (kw_get kw ''tableheader_fontsize'' (IntV 10))"
    using format_tableheader_last[OF assms(1) ne] by blast
  then show "\<exists>axg ax3. format_grouplabels df groupvar ax kw = Inr axg
            \<and> format_tableheader annoteheaders right_annoteheaders axg kw = Inr ax3
            \<and> l_weight (last (yticklabels ax3))
                = Some (kw_get kw ''tableheader_fontweight'' (Str ''bold''))
            \<and> l_size (last (yticklabels ax3))
                = Some (kw_get kw ''tableheader_fontsize'' (IntV 10))"
    using g by blast
qed

text \<open>
  The theorem at two inputs. On \<open>top_ax\<close> the last tick is an ordinary row that gets a
  band when no header list is given and none when one is. On \<open>header_ax\<close> the last tick
  carries a group name: \<open>format_grouplabels\<close> sets size 12 on it and
  \<open>format_tableheader\<close> then sets bold and size 14.
\<close>

theorem C4_header_row_unshaded_and_bold_witness:
  "yticklabels top_ax \<noteq> [] \<and> yticklabels header_ax \<noteq> []
   \<and> groups_of five_df (Some ''group'') = Inr [''a'', ''b'']
   \<and> shading_of (draw_alt_row_colors five_df (Some ''group'') None None top_ax no_kwargs) 2
       = Inr [False, True]
   \<and> (\<exists>ax1. draw_alt_row_colors five_df (Some ''group'') (Some [''N'']) None top_ax no_kwargs
               = Inr ax1
         \<and> \<not> shaded ax1 1)
   \<and> (\<exists>axg ax3. format_grouplabels five_df (Some ''group'') header_ax header_kw = Inr axg
         \<and> l_size (last (yticklabels axg)) = Some (IntV 12)
         \<and> format_tableheader (Some [''N'']) None axg header_kw = Inr ax3
         \<and> l_weight (last (yticklabels ax3)) = Some (Str ''bold'')
         \<and> l_size (last (yticklabels ax3)) = Some (IntV 14))"
proof -
  have h1: "Some [''N''] \<noteq> None \<or> (None :: string list option) \<noteq> None" by simp
  have h2: "yticklabels header_ax \<noteq> []"
    by (simp add: header_ax_def mk_axes_def)
  have h2': "yticklabels top_ax \<noteq> []"
    by (simp add: top_ax_def mk_axes_def)
  have h3: "groups_of five_df (Some ''group'') = Inr [''a'', ''b'']"
    by code_simp
  have plain: "shading_of (draw_alt_row_colors five_df (Some ''group'') None None top_ax
                 no_kwargs) 2 = Inr [False, True]"
    by code_simp
  note c = C4_header_row_unshaded_and_bold [OF h1 h2 h3, of header_kw]
  note c' = C4_header_row_unshaded_and_bold [OF h1 h2' h3, of no_kwargs]
  have n: "length (yticklabels top_ax) - 1 = 1" "spans top_ax = []"
    by (simp_all add: top_ax_def mk_axes_def)
  have k: "kw_get header_kw ''tableheader_fontweight'' (Str ''bold'') = Str ''bold''"
    "kw_get header_kw ''tableheader_fontsize'' (IntV 10) = IntV 14"
    by (simp_all add: kw_get_def header_kw_def)
  from c' obtain ax1 where
    r1: "draw_alt_row_colors five_df (Some ''group'') (Some [''N'']) None top_ax no_kwargs
           = Inr ax1"
    and s1: "\<forall>sp \<in> set (drop (length (spans top_ax)) (spans ax1)).
                  \<not> (sp_ymin sp = real (length (yticklabels top_ax) - 1) - 0.5
                     \<and> sp_ymax sp = real (length (yticklabels top_ax) - 1) + 0.5)"
    by blast
  have u: "\<not> shaded ax1 1"
    using s1 n by (auto simp add: shaded_def list_ex_iff)
  from c obtain axg ax3 where
    g: "format_grouplabels five_df (Some ''group'') header_ax header_kw = Inr axg"
    and f: "format_tableheader (Some [''N'']) None axg header_kw = Inr ax3"
    and w: "l_weight (last (yticklabels ax3))
                = Some (kw_get header_kw ''tableheader_fontweight'' (Str ''bold''))"
    and s: "l_size (last (yticklabels ax3))
                = Some (kw_get header_kw ''tableheader_fontsize'' (IntV 10))"
    by blast
  have "format_grouplabels five_df (Some ''group'') header_ax header_kw
      = Inr (header_ax\<lparr>yticklabels :=
          [mk_tick ''x1'', mk_tick ''x2'',
           (mk_tick ''B'')\<lparr>l_weight := Some (Str ''bold''), l_size := Some (IntV 12)\<rparr>]\<rparr>)"
    by code_simp
  with g have gs: "l_size (last (yticklabels axg)) = Some (IntV 12)"
    by auto
  show ?thesis
    using h2 h2' h3 plain r1 u g gs f w s k by auto
qed

end
